theory Spec2Isabelle
  imports Complex_Main "HOL-Library.Log_Nat" "HOL-Library.Signed_Division" "HOL-Library.AList"
begin

section \<open>JavaScript numbers\<close>

text \<open>
  A \<open>bigint\<close> is an \<^typ>\<open>int\<close>. A \<open>number\<close> is a binary64 value: a finite value is
  the real it denotes, and there are the two infinities and \<open>NaN\<close>. The two zeros are
  not told apart; the code modelled here never divides by a variable that can be zero.

  Every arithmetic operation returns the exact result rounded to the nearest binary64
  value, ties to the even significand: 53 significant bits above \<open>2\<^sup>-\<^sup>1\<^sup>0\<^sup>2\<^sup>2\<close>, multiples of
  \<open>2\<^sup>-\<^sup>1\<^sup>0\<^sup>7\<^sup>4\<close> below, and an infinity when the rounded magnitude reaches \<open>2\<^sup>1\<^sup>0\<^sup>2\<^sup>4\<close>.
\<close>

definition pow2 :: "int \<Rightarrow> real" where
  "pow2 k = (if 0 \<le> k then 2 ^ nat k else 1 / 2 ^ nat (- k))"

definition floor_log2 :: "real \<Rightarrow> int" where
  \<comment> \<open>\<open>\<lfloor>log\<^sub>2 x\<rfloor>\<close> for \<open>0 < x\<close>, by bit lengths.\<close>
  "floor_log2 x =
     (if 1 \<le> x then bitlen \<lfloor>x\<rfloor> - 1 else - bitlen (\<lceil>1 / x\<rceil> - 1))"

definition round_half_even :: "real \<Rightarrow> int" where
  "round_half_even x =
     (let f = \<lfloor>x\<rfloor>; r = x - of_int f in
      if r < 1 / 2 then f
      else if 1 / 2 < r then f + 1
      else if even f then f else f + 1)"

datatype number = Finite real | PosInfinity | NegInfinity | NaN

definition binary64 :: "real \<Rightarrow> number" where
  \<comment> \<open>the binary64 value nearest to \<open>x\<close>\<close>
  "binary64 x =
     (if x = 0 then Finite 0
      else
        let a = \<bar>x\<bar>;
            e = max (floor_log2 a - 52) (- 1074);
            m = round_half_even (a / pow2 e)
        in if of_int m * pow2 e \<ge> pow2 1024
           then (if 0 < x then PosInfinity else NegInfinity)
           else Finite (sgn x * of_int m * pow2 e))"

fun neg :: "number \<Rightarrow> number" where
  "neg (Finite a) = Finite (- a)"
| "neg PosInfinity = NegInfinity"
| "neg NegInfinity = PosInfinity"
| "neg NaN = NaN"

fun nadd :: "number \<Rightarrow> number \<Rightarrow> number" where
  "nadd (Finite a) (Finite b) = binary64 (a + b)"
| "nadd NaN y = NaN"
| "nadd x NaN = NaN"
| "nadd PosInfinity NegInfinity = NaN"
| "nadd NegInfinity PosInfinity = NaN"
| "nadd PosInfinity y = PosInfinity"
| "nadd NegInfinity y = NegInfinity"
| "nadd x PosInfinity = PosInfinity"
| "nadd x NegInfinity = NegInfinity"

definition nsub :: "number \<Rightarrow> number \<Rightarrow> number" where
  "nsub x y = nadd x (neg y)"

text \<open>The sign of a product or quotient with an infinite operand.\<close>

fun positive :: "number \<Rightarrow> bool" where
  "positive (Finite a) = (0 \<le> a)"
| "positive PosInfinity = True"
| "positive NegInfinity = False"
| "positive NaN = False"

definition signed_infinity :: "bool \<Rightarrow> number" where
  "signed_infinity p = (if p then PosInfinity else NegInfinity)"

fun nmul :: "number \<Rightarrow> number \<Rightarrow> number" where
  "nmul (Finite a) (Finite b) = binary64 (a * b)"
| "nmul NaN y = NaN"
| "nmul x NaN = NaN"
| "nmul (Finite a) y = (if a = 0 then NaN else signed_infinity (positive (Finite a) = positive y))"
| "nmul x (Finite b) = (if b = 0 then NaN else signed_infinity (positive x = positive (Finite b)))"
| "nmul x y = signed_infinity (positive x = positive y)"

fun ndiv :: "number \<Rightarrow> number \<Rightarrow> number" where
  "ndiv (Finite a) (Finite b) =
     (if b = 0 then (if a = 0 then NaN else signed_infinity (0 < a)) else binary64 (a / b))"
| "ndiv NaN y = NaN"
| "ndiv x NaN = NaN"
| "ndiv (Finite a) y = Finite 0"
| "ndiv x (Finite b) = signed_infinity (positive x = positive (Finite b))"
| "ndiv x y = NaN"

text \<open>A comparison with \<open>NaN\<close> is false.\<close>

fun nlt :: "number \<Rightarrow> number \<Rightarrow> bool" where
  "nlt (Finite a) (Finite b) = (a < b)"
| "nlt NaN y = False"
| "nlt x NaN = False"
| "nlt NegInfinity y = (y \<noteq> NegInfinity)"
| "nlt x PosInfinity = (x \<noteq> PosInfinity)"
| "nlt x y = False"

definition ngt :: "number \<Rightarrow> number \<Rightarrow> bool" where
  "ngt x y = nlt y x"

definition nle :: "number \<Rightarrow> number \<Rightarrow> bool" where
  "nle x y = (x \<noteq> NaN \<and> y \<noteq> NaN \<and> \<not> nlt y x)"

definition nge :: "number \<Rightarrow> number \<Rightarrow> bool" where
  "nge x y = nle y x"

definition isInteger :: "real \<Rightarrow> bool" where
  "isInteger x = (of_int \<lfloor>x\<rfloor> = x)"

fun isFinite :: "number \<Rightarrow> bool" where
  "isFinite (Finite a) = True"
| "isFinite x = False"

fun Number_isInteger :: "number \<Rightarrow> bool" where
  "Number_isInteger (Finite a) = isInteger a"
| "Number_isInteger x = False"

fun Math_floor :: "number \<Rightarrow> number" where
  "Math_floor (Finite a) = Finite (of_int \<lfloor>a\<rfloor>)"
| "Math_floor x = x"

fun Math_abs :: "number \<Rightarrow> number" where
  "Math_abs (Finite a) = Finite \<bar>a\<bar>"
| "Math_abs NaN = NaN"
| "Math_abs x = PosInfinity"

text \<open>\<open>!x\<close> on a number holds for zero and for \<open>NaN\<close>.\<close>

definition falsy_number :: "number \<Rightarrow> bool" where
  "falsy_number x = (x = Finite 0 \<or> x = NaN)"

definition Number :: "int \<Rightarrow> number" where
  \<comment> \<open>\<open>Number(w)\<close> of a \<open>bigint\<close>\<close>
  "Number w = binary64 (of_int w)"

text \<open>
  A time value (\<open>Date.now()\<close>, \<open>getTime()\<close> of a stored date) is an integer number of
  milliseconds of magnitude at most \<open>8.64 \<sqdot> 10\<^sup>1\<^sup>5\<close>, which binary64 holds exactly.
  Time values and counts are kept as integers; \<open>timeValue\<close> is such an integer as a
  \<open>number\<close>.
\<close>

definition timeValue :: "int \<Rightarrow> number" where
  "timeValue t = Finite (of_int t)"

section \<open>Configuration constants (lib/config/constants.ts)\<close>

text \<open>
  Amounts exist in two units: whole USDT as \<open>number\<close>s and the token's smallest unit
  (6 decimals) as \<open>bigint\<close>s.
\<close>

definition MIN_BET :: number where "MIN_BET = Finite 5"
definition MAX_BET :: number where "MAX_BET = Finite 5000"
definition USDT_DECIMALS :: nat where "USDT_DECIMALS = 6"
definition MIN_BET_WEI :: int where "MIN_BET_WEI = 5000000"
definition MAX_BET_WEI :: int where "MAX_BET_WEI = 5000000000"

definition COOLDOWN_SECONDS :: int where "COOLDOWN_SECONDS = 300"
definition MAX_BETS_PER_WALLET :: int where "MAX_BETS_PER_WALLET = 10"
definition POOL_CAP_PERCENT :: number where "POOL_CAP_PERCENT = Finite 10"
definition MAX_BETS_IN_1_HOUR :: int where "MAX_BETS_IN_1_HOUR = 3"

datatype BetChoice = YES | NO

section \<open>Transaction decoding (lib/blockchain/tx-validator.ts)\<close>

definition PLACE_BET :: string where "PLACE_BET = ''0x4cf088d9''"

text \<open>
  \<open>BigInt("0x" + w)\<close>: the string is trimmed of white space, then it must be
  \<open>0x\<close> followed by at least one hexadecimal digit of either case, else a
  \<open>SyntaxError\<close> is thrown (\<open>None\<close>). The prefix is fixed, so only trailing white
  space of \<open>w\<close> can be trimmed. Strings are ASCII.
\<close>

definition hexDigit :: "char \<Rightarrow> nat option" where
  "hexDigit c =
     (let n = (of_char c :: nat) in
      if 48 \<le> n \<and> n \<le> 57 then Some (n - 48)
      else if 97 \<le> n \<and> n \<le> 102 then Some (n - 87)
      else if 65 \<le> n \<and> n \<le> 70 then Some (n - 55)
      else None)"

fun hexValue :: "nat \<Rightarrow> string \<Rightarrow> nat option" where
  "hexValue acc [] = Some acc"
| "hexValue acc (c # cs) =
     (case hexDigit c of None \<Rightarrow> None | Some d \<Rightarrow> hexValue (16 * acc + d) cs)"

definition isStrWhiteSpace :: "char \<Rightarrow> bool" where
  "isStrWhiteSpace c = ((of_char c :: nat) \<in> {9, 10, 11, 12, 13, 32})"

definition trimEnd :: "string \<Rightarrow> string" where
  "trimEnd s = rev (dropWhile isStrWhiteSpace (rev s))"

definition BigInt_hex :: "string \<Rightarrow> int option" where
  "BigInt_hex w =
     (let d = trimEnd w in
      if d = [] then None else map_option int (hexValue 0 d))"

datatype decode_error =
    NotPlaceBet
  | InvalidDataLength
  | InvalidChoiceValue
  | AmountOutsideLimits int
  | FailedToDecode

record DecodedBetTransaction =
  dec_isValid :: bool
  dec_choice :: "BetChoice option"
  dec_amount :: "int option"
  dec_error :: "decode_error option"

definition decode_failure :: "decode_error \<Rightarrow> DecodedBetTransaction" where
  "decode_failure e =
     \<lparr>dec_isValid = False, dec_choice = None, dec_amount = None, dec_error = Some e\<rparr>"

definition decode_success :: "BetChoice \<Rightarrow> int \<Rightarrow> DecodedBetTransaction" where
  "decode_success c a =
     \<lparr>dec_isValid = True, dec_choice = Some c, dec_amount = Some a, dec_error = None\<rparr>"

text \<open>
  \<open>slice(0, 10)\<close> is \<^const>\<open>take\<close>, \<open>slice(10)\<close> is \<^const>\<open>drop\<close>. The
  \<open>catch\<close> of the source turns the \<open>SyntaxError\<close> of either \<open>BigInt\<close> call into
  the failure \<^const>\<open>FailedToDecode\<close>; the choice word is parsed and checked before
  the amount word is parsed.
\<close>

definition decodePlaceBetTransaction :: "string \<Rightarrow> DecodedBetTransaction" where
  "decodePlaceBetTransaction transactionData =
     (if take 10 transactionData \<noteq> PLACE_BET then decode_failure NotPlaceBet
      else
        let params = drop 10 transactionData in
        if length params \<noteq> 128 then decode_failure InvalidDataLength
        else
          (case BigInt_hex (take 64 params) of
             None \<Rightarrow> decode_failure FailedToDecode
           | Some choiceBigInt \<Rightarrow>
               (if choiceBigInt \<noteq> 0 \<and> choiceBigInt \<noteq> 1
                then decode_failure InvalidChoiceValue
                else
                  (case BigInt_hex (take 64 (drop 64 params)) of
                     None \<Rightarrow> decode_failure FailedToDecode
                   | Some amount \<Rightarrow>
                       (if amount < MIN_BET_WEI \<or> amount > MAX_BET_WEI
                        then decode_failure (AmountOutsideLimits amount)
                        else decode_success (if choiceBigInt = 0 then YES else NO) amount)))))"

section \<open>Unit conversion (lib/config/constants.ts)\<close>

text \<open>
  \<open>formatUSDT\<close> and \<open>toUSDTWei\<close> are modelled on finite values alone: a finite
  binary64 value is the real it denotes, and every operation returns the exact result
  rounded to 53 significant bits, ties to the even significand. The exponent range is
  not modelled: all values here lie within \<open>2\<^sup>-\<^sup>1\<^sup>0\<^sup>2\<^sup>2 .. 2\<^sup>1\<^sup>0\<^sup>2\<^sup>3\<close>, where
  binary64 neither overflows nor loses bits to subnormals.
\<close>

definition round_double :: "real \<Rightarrow> real" where
  "round_double x =
     (if x = 0 then 0
      else
        let a = \<bar>x\<bar>;
            e = floor_log2 a - 52;
            m = round_half_even (a / pow2 e)
        in sgn x * of_int m * pow2 e)"

definition Number_of_bigint :: "int \<Rightarrow> real" where
  "Number_of_bigint w = round_double (of_int w)"

definition fdiv :: "real \<Rightarrow> real \<Rightarrow> real" where
  "fdiv a b = round_double (a / b)"

definition fmul :: "real \<Rightarrow> real \<Rightarrow> real" where
  "fmul a b = round_double (a * b)"

text \<open>
  \<open>Math.pow(10, 6)\<close> is exactly \<open>1000000\<close>. \<open>formatUSDT\<close> is modelled on its
  \<open>bigint\<close> argument. \<open>BigInt(Math.floor(x))\<close> is \<open>\<lfloor>x\<rfloor>\<close>.
\<close>

definition formatUSDT :: "int \<Rightarrow> real" where
  "formatUSDT weiAmount = fdiv (Number_of_bigint weiAmount) (10 ^ USDT_DECIMALS)"

definition toUSDTWei :: "real \<Rightarrow> int" where
  "toUSDTWei amount = \<lfloor>fmul amount (10 ^ USDT_DECIMALS)\<rfloor>"

section \<open>Rule engine (lib/validation/bet-rules.ts)\<close>

text \<open>
  A \<open>BetValidationError\<close> of the source is a triple of field, message and code. Each
  constructor below stands for one \<open>errors.push\<close> site; \<open>code\<close> gives the code
  that site pushes. The arguments are typed, so \<open>typeof amount !== "number"\<close> is false.
\<close>

datatype BetValidationError =
    AmountNotNumber
  | AmountNotPositive
  | AmountNotWhole
  | BetTooLow
  | BetTooHigh
  | InvalidChoice
  | CooldownNotMet int
  | BetCountExceeded
  | PoolCapExceeded
  | VelocityExceeded
  | WalletFlagged
  | InvalidWallet
  | InvalidWalletFormat
  | MarketNotActive
  | MarketExpired

fun code :: "BetValidationError \<Rightarrow> string" where
  "code AmountNotNumber = ''INVALID_AMOUNT''"
| "code AmountNotPositive = ''INVALID_AMOUNT''"
| "code AmountNotWhole = ''INVALID_AMOUNT''"
| "code BetTooLow = ''BET_MIN_EXCEEDED''"
| "code BetTooHigh = ''BET_MAX_EXCEEDED''"
| "code InvalidChoice = ''INVALID_CHOICE''"
| "code (CooldownNotMet secondsRemaining) = ''COOLDOWN_NOT_MET''"
| "code BetCountExceeded = ''BET_COUNT_EXCEEDED''"
| "code PoolCapExceeded = ''POOL_CAP_EXCEEDED''"
| "code VelocityExceeded = ''VELOCITY_EXCEEDED''"
| "code WalletFlagged = ''WALLET_FLAGGED''"
| "code InvalidWallet = ''INVALID_WALLET''"
| "code InvalidWalletFormat = ''INVALID_WALLET''"
| "code MarketNotActive = ''MARKET_NOT_ACTIVE''"
| "code MarketExpired = ''MARKET_NOT_ACTIVE''"

datatype ValidationWarning = LargeAmount number | ApproachingPoolLimit number

record ValidationResult =
  vr_isValid :: bool
  vr_errors :: "BetValidationError list"
  vr_warnings :: "ValidationWarning list"

definition validateBetAmount :: "number \<Rightarrow> BetValidationError list" where
  "validateBetAmount amount =
     (if \<not> isFinite amount then [AmountNotNumber]
      else if nle amount (Finite 0) then [AmountNotPositive]
      else if \<not> Number_isInteger amount then [AmountNotWhole]
      else (if nlt amount MIN_BET then [BetTooLow] else [])
         @ (if ngt amount MAX_BET then [BetTooHigh] else []))"

text \<open>The argument is \<open>unknown\<close> in the source: \<open>None\<close> is any value that is neither
  \<open>BetChoice.YES\<close> nor \<open>BetChoice.NO\<close>.\<close>

definition validateBetChoice :: "BetChoice option \<Rightarrow> BetValidationError list" where
  "validateBetChoice choice = (case choice of None \<Rightarrow> [InvalidChoice] | Some c \<Rightarrow> [])"

text \<open>\<open>!lastBetTimestamp\<close> holds for \<open>null\<close> and for \<open>0\<close>.\<close>

definition validateCooldown :: "int option \<Rightarrow> int \<Rightarrow> BetValidationError list" where
  "validateCooldown lastBetTimestamp currentTime =
     (case lastBetTimestamp of
        None \<Rightarrow> []
      | Some t \<Rightarrow>
          (if t = 0 then []
           else
             let timeSinceLastBet = currentTime - t;
                 cooldownMs = COOLDOWN_SECONDS * 1000
             in if timeSinceLastBet < cooldownMs
                then [CooldownNotMet \<lceil>real_of_int (cooldownMs - timeSinceLastBet) / 1000\<rceil>]
                else []))"

definition validateBetCount :: "int \<Rightarrow> BetValidationError list" where
  "validateBetCount currentBetCount =
     (if currentBetCount \<ge> MAX_BETS_PER_WALLET then [BetCountExceeded] else [])"

definition validatePoolCap ::
  "number \<Rightarrow> number \<Rightarrow> number \<Rightarrow> number \<Rightarrow> BetValidationError list" where
  "validatePoolCap walletTotalBets newBetAmount totalYesPool totalNoPool =
     (let totalPool = nadd totalYesPool totalNoPool;
          maxWalletExposure =
            (if ngt totalPool (Finite 0)
             then ndiv (nmul totalPool POOL_CAP_PERCENT) (Finite 100)
             else nmul MAX_BET (Finite 10));
          walletExposureAfterBet = nadd walletTotalBets newBetAmount
      in if ngt walletExposureAfterBet maxWalletExposure then [PoolCapExceeded] else [])"

definition validateBetVelocity :: "int list \<Rightarrow> int \<Rightarrow> BetValidationError list" where
  "validateBetVelocity recentBetTimestamps currentTime =
     (let oneHourMs = 3600 * 1000;
          oneHourAgo = currentTime - oneHourMs;
          betsInLastHour = int (length (filter (\<lambda>timestamp. timestamp \<ge> oneHourAgo) recentBetTimestamps))
      in if betsInLastHour \<ge> MAX_BETS_IN_1_HOUR then [VelocityExceeded] else [])"

definition validateWalletNotFlagged :: "bool \<Rightarrow> BetValidationError list" where
  "validateWalletNotFlagged isFlagged = (if isFlagged then [WalletFlagged] else [])"

text \<open>\<open>isValidAddress\<close> tests the regular expression \<open>/^0x[a-fA-F0-9]{40}$/\<close>.\<close>

definition isValidAddress :: "string \<Rightarrow> bool" where
  "isValidAddress address =
     (length address = 42 \<and> take 2 address = ''0x''
      \<and> list_all (\<lambda>c. hexDigit c \<noteq> None) (drop 2 address))"

definition validateWalletAddress :: "string \<Rightarrow> BetValidationError list" where
  "validateWalletAddress address =
     (if address = [] then [InvalidWallet]
      else if \<not> isValidAddress address then [InvalidWalletFormat]
      else [])"

definition validateMarketActive ::
  "string \<Rightarrow> number \<Rightarrow> int \<Rightarrow> BetValidationError list" where
  "validateMarketActive marketStatus endTime currentTime =
     (if marketStatus \<noteq> ''ACTIVE'' then [MarketNotActive] else [])
     @ (let endTimeMs = nmul endTime (Finite 1000)
        in if ngt (timeValue currentTime) endTimeMs then [MarketExpired] else [])"

record BetInput =
  bi_walletAddress :: string
  bi_choice :: "BetChoice option"
  bi_amount :: number
  bi_lastBetTimestamp :: "int option"
  bi_currentBetCount :: int
  bi_walletTotalBets :: number
  bi_recentBetTimestamps :: "int list"
  bi_totalYesPool :: number
  bi_totalNoPool :: number
  bi_marketStatus :: string
  bi_marketEndTime :: number
  bi_isFlagged :: bool

text \<open>
  \<open>validateBetComprehensive\<close> and \<open>validateBetForContract\<close> read the clock once
  (\<open>const currentTime = Date.now()\<close>); the reading is the second argument. The
  literal \<open>0.8\<close> denotes the binary64 value nearest to it.
\<close>

definition validateBetComprehensive :: "BetInput \<Rightarrow> int \<Rightarrow> ValidationResult" where
  "validateBetComprehensive inp currentTime =
     (let errors0 =
            validateWalletAddress (bi_walletAddress inp)
            @ validateBetChoice (bi_choice inp)
            @ validateBetAmount (bi_amount inp)
            @ validateMarketActive (bi_marketStatus inp) (bi_marketEndTime inp) currentTime
            @ validateWalletNotFlagged (bi_isFlagged inp);
          errors =
            (if length errors0 = 0
             then errors0
                  @ validateCooldown (bi_lastBetTimestamp inp) currentTime
                  @ validateBetCount (bi_currentBetCount inp)
                  @ validatePoolCap (bi_walletTotalBets inp) (bi_amount inp)
                      (bi_totalYesPool inp) (bi_totalNoPool inp)
                  @ validateBetVelocity (bi_recentBetTimestamps inp) currentTime
             else errors0);
          warnings1 =
            (if ngt (bi_amount inp) (nmul MAX_BET (binary64 (8 / 10)))
             then [LargeAmount (bi_amount inp)] else []);
          totalPool = nadd (bi_totalYesPool inp) (bi_totalNoPool inp);
          warnings2 =
            (if ngt totalPool (Finite 0)
             then
               let walletExposurePercent =
                     nmul (ndiv (nadd (bi_walletTotalBets inp) (bi_amount inp)) totalPool)
                       (Finite 100)
               in if ngt walletExposurePercent (Finite 8)
                  then [ApproachingPoolLimit walletExposurePercent] else []
             else [])
      in \<lparr>vr_isValid = (length errors = 0), vr_errors = errors,
           vr_warnings = warnings1 @ warnings2\<rparr>)"

definition validateBetForContract :: "BetInput \<Rightarrow> int \<Rightarrow> ValidationResult" where
  "validateBetForContract inp currentTime =
     (let errors =
            validateBetAmount (bi_amount inp)
            @ validateBetChoice (bi_choice inp)
            @ validateCooldown (bi_lastBetTimestamp inp) currentTime
            @ validateBetCount (bi_currentBetCount inp)
            @ validatePoolCap (bi_walletTotalBets inp) (bi_amount inp)
                (bi_totalYesPool inp) (bi_totalNoPool inp)
            @ validateBetVelocity (bi_recentBetTimestamps inp) currentTime
            @ validateWalletNotFlagged (bi_isFlagged inp)
      in \<lparr>vr_isValid = (length errors = 0), vr_errors = errors, vr_warnings = []\<rparr>)"

section \<open>Ledger reader (lib/blockchain/viem-client.ts)\<close>

text \<open>
  The ledger is an external service. One request sees one snapshot of it: the three
  RPC calls are functions of the transaction hash, and each may throw.
\<close>

datatype 'a outcome = Thrown | Returned 'a

datatype receipt_status = ReceiptSuccess | ReceiptReverted

record TransactionReceipt =
  rc_status :: receipt_status
  rc_to :: "string option"
  rc_blockNumber :: int
  rc_gasUsed :: int

record Transaction =
  tx_input :: string
  tx_gas :: int
  tx_gasPrice :: int

record Ledger =
  getTransactionReceipt :: "string \<Rightarrow> TransactionReceipt option outcome"
  getTransaction :: "string \<Rightarrow> Transaction outcome"
  getBlockNumber :: "int outcome"
  PREDICTION_MARKET :: string

datatype tx_status = Pending | Success | Failed | NotFound

datatype verify_error =
    TransactionPending
  | TransactionFailedOnChain
  | NoReceiptFound
  | TransactionNotFound
  | TransactionReverted
  | NotPredictionMarket
  | ErrorValidating
  | NoTransactionData
  | ReceiptFailed
  | ReceiptNotToContract
  | SuspiciousGas
  | DecodeError decode_error
  | CouldNotBeDecoded
  | ChoiceMismatch BetChoice BetChoice
  | AmountMismatch int int
  | UnexpectedError

record OnChainValidation =
  oc_isValid :: bool
  oc_receipt :: "TransactionReceipt option"
  oc_blockNumber :: "int option"
  oc_status :: tx_status
  oc_error :: "verify_error option"

definition toLowerCase :: "string \<Rightarrow> string" where
  "toLowerCase s =
     map (\<lambda>c. let n = (of_char c :: nat) in
                if 65 \<le> n \<and> n \<le> 90 then char_of (n + 32) else c) s"

definition toContract :: "Ledger \<Rightarrow> TransactionReceipt \<Rightarrow> bool" where
  "toContract ledger receipt =
     (case rc_to receipt of
        None \<Rightarrow> False
      | Some a \<Rightarrow> toLowerCase a = toLowerCase (PREDICTION_MARKET ledger))"

definition validateTransactionOnChain :: "Ledger \<Rightarrow> string \<Rightarrow> OnChainValidation" where
  "validateTransactionOnChain ledger txHash =
     (case getTransactionReceipt ledger txHash of
        Thrown \<Rightarrow>
          \<lparr>oc_isValid = False, oc_receipt = None, oc_blockNumber = None,
           oc_status = NotFound, oc_error = Some ErrorValidating\<rparr>
      | Returned None \<Rightarrow>
          (case getTransaction ledger txHash of
             Returned t \<Rightarrow>
               \<lparr>oc_isValid = False, oc_receipt = None, oc_blockNumber = None,
                oc_status = Pending, oc_error = Some TransactionPending\<rparr>
           | Thrown \<Rightarrow>
               \<lparr>oc_isValid = False, oc_receipt = None, oc_blockNumber = None,
                oc_status = NotFound, oc_error = Some TransactionNotFound\<rparr>)
      | Returned (Some receipt) \<Rightarrow>
          (if rc_status receipt \<noteq> ReceiptSuccess
           then \<lparr>oc_isValid = False, oc_receipt = Some receipt,
                 oc_blockNumber = Some (rc_blockNumber receipt),
                 oc_status = Failed, oc_error = Some TransactionReverted\<rparr>
           else if \<not> toContract ledger receipt
           then \<lparr>oc_isValid = False, oc_receipt = Some receipt,
                 oc_blockNumber = Some (rc_blockNumber receipt),
                 oc_status = Success, oc_error = Some NotPredictionMarket\<rparr>
           else \<lparr>oc_isValid = True, oc_receipt = Some receipt,
                 oc_blockNumber = Some (rc_blockNumber receipt),
                 oc_status = Success, oc_error = None\<rparr>))"

record TransactionDetails =
  td_data :: string
  td_gas :: int
  td_gasPrice :: int
  td_gasUsed :: "int option"
  td_blockNumber :: "int option"

text \<open>\<open>getTransactionDetails\<close> returns \<open>null\<close> when any of its RPC calls throws; it
  reads the block number only when a receipt exists.\<close>

definition getTransactionDetails :: "Ledger \<Rightarrow> string \<Rightarrow> TransactionDetails option" where
  "getTransactionDetails ledger txHash =
     (case getTransaction ledger txHash of
        Thrown \<Rightarrow> None
      | Returned t \<Rightarrow>
          (case getTransactionReceipt ledger txHash of
             Thrown \<Rightarrow> None
           | Returned None \<Rightarrow>
               Some \<lparr>td_data = tx_input t, td_gas = tx_gas t, td_gasPrice = tx_gasPrice t,
                     td_gasUsed = None, td_blockNumber = None\<rparr>
           | Returned (Some receipt) \<Rightarrow>
               (case getBlockNumber ledger of
                  Thrown \<Rightarrow> None
                | Returned b \<Rightarrow>
                    Some \<lparr>td_data = tx_input t, td_gas = tx_gas t, td_gasPrice = tx_gasPrice t,
                          td_gasUsed = Some (rc_gasUsed receipt),
                          td_blockNumber = Some (rc_blockNumber receipt)\<rparr>)))"

section \<open>Transaction verifier (lib/blockchain/tx-validator.ts)\<close>

text \<open>
  \<open>BigInt(x)\<close> of a \<open>number\<close> throws a \<open>RangeError\<close> unless \<open>x\<close> is finite and an
  integer. \<open>validateDecodedBet\<close> has no \<open>catch\<close> of its own, so the exception is its
  outcome. A \<open>bigint\<close> is falsy exactly when it is \<open>0n\<close>. \<open>10 ** 6\<close> is exactly
  \<open>1000000\<close>, and the product with it is a binary64 product.
\<close>

fun BigInt_number :: "number \<Rightarrow> int outcome" where
  "BigInt_number (Finite x) = (if isInteger x then Returned \<lfloor>x\<rfloor> else Thrown)"
| "BigInt_number x = Thrown"

definition validateDecodedBet ::
  "DecodedBetTransaction \<Rightarrow> BetChoice \<Rightarrow> number \<Rightarrow> verify_error list outcome" where
  "validateDecodedBet decoded userChoice userAmount =
     (case (dec_isValid decoded, dec_choice decoded, dec_amount decoded) of
        (True, Some dchoice, Some damount) \<Rightarrow>
          (if damount = 0 then Returned [CouldNotBeDecoded]
           else
             let errors1 =
                   (if dchoice \<noteq> userChoice then [ChoiceMismatch dchoice userChoice] else [])
             in (case BigInt_number (nmul userAmount (Finite (10 ^ USDT_DECIMALS))) of
                   Thrown \<Rightarrow> Thrown
                 | Returned expectedAmount \<Rightarrow>
                     let amountDiff =
                           (if damount > expectedAmount then damount - expectedAmount
                            else expectedAmount - damount)
                     in Returned
                          (errors1 @
                           (if amountDiff > 1 then [AmountMismatch damount expectedAmount]
                            else []))))
      | _ \<Rightarrow> Returned [CouldNotBeDecoded])"

text \<open>The gas test uses \<open>bigint\<close> arithmetic; \<open>gasUsed\<close> and \<open>gasLimit\<close> are truthy
  when they are not \<open>0n\<close>.\<close>

definition validateTransactionReceipt ::
  "Ledger \<Rightarrow> TransactionReceipt option \<Rightarrow> int \<Rightarrow> verify_error list" where
  "validateTransactionReceipt ledger receipt gasLimit =
     (case receipt of
        None \<Rightarrow> [NoReceiptFound]
      | Some r \<Rightarrow>
          (if rc_status r \<noteq> ReceiptSuccess then [ReceiptFailed] else [])
          @ (if \<not> toContract ledger r then [ReceiptNotToContract] else [])
          @ (if rc_gasUsed r \<noteq> 0 \<and> gasLimit \<noteq> 0
                \<and> rc_gasUsed r > (gasLimit * 95) sdiv 100
             then [SuspiciousGas] else []))"

datatype verify_warning = HighGasCost | NotYetConfirmed | FewConfirmations int

record ValidatedBetTransaction =
  vt_isValid :: bool
  vt_choice :: "BetChoice option"
  vt_amount :: "number option"
  vt_amountWei :: "int option"
  vt_blockNumber :: "int option"
  vt_status :: tx_status
  vt_errors :: "verify_error list"
  vt_warnings :: "verify_warning list"

definition verification_failure ::
  "tx_status \<Rightarrow> int option \<Rightarrow> verify_error list \<Rightarrow> ValidatedBetTransaction" where
  "verification_failure st bn errs =
     \<lparr>vt_isValid = False, vt_choice = None, vt_amount = None, vt_amountWei = None,
      vt_blockNumber = bn, vt_status = st, vt_errors = errs, vt_warnings = []\<rparr>"

text \<open>
  \<open>x || undefined\<close> on a block number drops \<open>0\<close>. The \<open>catch\<close> of
  \<open>validateBetTransaction\<close> appends one error to those collected so far and reports
  \<open>not_found\<close>. \<open>10 ** 18\<close> is exactly \<open>10\<^sup>1\<^sup>8\<close>; the literal \<open>0.01\<close> denotes the
  binary64 value nearest to it.
\<close>

definition orUndefined :: "int option \<Rightarrow> int option" where
  "orUndefined b = (case b of None \<Rightarrow> None | Some n \<Rightarrow> if n = 0 then None else Some n)"

definition validateBetTransaction ::
  "Ledger \<Rightarrow> string \<Rightarrow> BetChoice \<Rightarrow> number \<Rightarrow> ValidatedBetTransaction" where
  "validateBetTransaction ledger txHash userChoice userAmount =
     (let onChainValidation = validateTransactionOnChain ledger txHash in
      if \<not> oc_isValid onChainValidation
      then verification_failure (oc_status onChainValidation) None
             [case oc_error onChainValidation of
                None \<Rightarrow> TransactionFailedOnChain | Some e \<Rightarrow> e]
      else
        let receipt = oc_receipt onChainValidation;
            blockNumber = orUndefined (oc_blockNumber onChainValidation)
        in
        (case getTransactionDetails ledger txHash of
           None \<Rightarrow> verification_failure Success blockNumber [NoTransactionData]
         | Some txDetails \<Rightarrow>
             (if td_data txDetails = [] 
              then verification_failure Success blockNumber [NoTransactionData]
              else
                let receiptErrors = validateTransactionReceipt ledger receipt (td_gas txDetails) in
                if receiptErrors \<noteq> []
                then verification_failure Failed blockNumber receiptErrors
                else
                  let decoded = decodePlaceBetTransaction (td_data txDetails) in
                  if \<not> dec_isValid decoded
                  then verification_failure Success blockNumber
                         [case dec_error decoded of
                            None \<Rightarrow> CouldNotBeDecoded | Some e \<Rightarrow> DecodeError e]
                  else
                    (case validateDecodedBet decoded userChoice userAmount of
                       Thrown \<Rightarrow> verification_failure NotFound None [UnexpectedError]
                     | Returned errors \<Rightarrow>
                         let amountUsdt =
                               map_option (\<lambda>a. ndiv (Number a) (Finite (10 ^ USDT_DECIMALS)))
                                 (dec_amount decoded);
                             gasWarnings =
                               (case (td_gasUsed txDetails, amountUsdt) of
                                  (Some gasUsed, Some usdt) \<Rightarrow>
                                    (if gasUsed \<noteq> 0 \<and> td_gasPrice txDetails \<noteq> 0
                                        \<and> ngt (ndiv (Number (gasUsed * td_gasPrice txDetails))
                                                 (Finite (10 ^ 18)))
                                               (nmul usdt (binary64 (1 / 100)))
                                     then [HighGasCost] else [])
                                | _ \<Rightarrow> [])
                         in
                         (case (receipt, orUndefined (td_blockNumber txDetails)) of
                            (Some r, Some b) \<Rightarrow>
                              (case getBlockNumber ledger of
                                 Thrown \<Rightarrow>
                                   verification_failure NotFound None (errors @ [UnexpectedError])
                               | Returned currentBlock \<Rightarrow>
                                   let confirmations = currentBlock - rc_blockNumber r;
                                       confWarnings =
                                         (if confirmations < 1 then [NotYetConfirmed]
                                          else if confirmations < 3
                                          then [FewConfirmations confirmations] else [])
                                   in \<lparr>vt_isValid = (length errors = 0),
                                        vt_choice = dec_choice decoded,
                                        vt_amount = amountUsdt,
                                        vt_amountWei = dec_amount decoded,
                                        vt_blockNumber = oc_blockNumber onChainValidation,
                                        vt_status = Success, vt_errors = errors,
                                        vt_warnings = gasWarnings @ confWarnings\<rparr>)
                          | _ \<Rightarrow>
                              \<lparr>vt_isValid = (length errors = 0),
                               vt_choice = dec_choice decoded,
                               vt_amount = amountUsdt,
                               vt_amountWei = dec_amount decoded,
                               vt_blockNumber = oc_blockNumber onChainValidation,
                               vt_status = Success, vt_errors = errors,
                               vt_warnings = gasWarnings\<rparr>)))))"

section \<open>Store (Prisma client, lib/db/client.ts)\<close>

record Market =
  mk_marketId :: string
  mk_status :: string
  mk_winner :: "string option"
  mk_yesPool :: int
  mk_noPool :: int
  mk_endDate :: int

record Bet =
  bet_id :: string
  bet_walletAddress :: string
  bet_marketId :: string
  bet_choice :: BetChoice
  bet_amount :: int
  bet_betNumber :: int
  bet_status :: string
  bet_txHash :: string
  bet_createdAt :: int

record BetHistory =
  bh_betId :: string
  bh_marketId :: string
  bh_wallet :: string
  bh_action :: string
  bh_reason :: string

record PoolSnapshot =
  ps_marketId :: string
  ps_yesPool :: int
  ps_noPool :: int
  ps_totalBets :: int

record FlaggedWallet =
  fw_wallet :: string
  fw_isActive :: bool

record Store =
  st_markets :: "Market list"
  st_bets :: "Bet list"
  st_betHistory :: "BetHistory list"
  st_poolSnapshots :: "PoolSnapshot list"
  st_flaggedWallets :: "FlaggedWallet list"

text \<open>
  Every store call of the confirmation handler can fail (the store is unreachable, a
  query times out). \<open>fails\<close> says which calls of one request do.
\<close>

datatype store_op =
    GetMarket
  | CountUserBets
  | SumUserBets
  | FindFlaggedWallet
  | FindLastBet
  | FindRecentBets
  | CreateBet
  | CreateBetHistory
  | UpdateMarket
  | GetUpdatedMarket
  | CountMarketBets
  | CreatePoolSnapshot

definition findMarket :: "Store \<Rightarrow> string \<Rightarrow> Market option" where
  "findMarket s marketId = find (\<lambda>m. mk_marketId m = marketId) (st_markets s)"

definition userBets :: "Store \<Rightarrow> string \<Rightarrow> string \<Rightarrow> Bet list" where
  "userBets s walletAddress marketId =
     filter (\<lambda>b. bet_walletAddress b = walletAddress \<and> bet_marketId b = marketId) (st_bets s)"

text \<open>The helpers of \<open>lib/db/client.ts\<close> catch a store failure and return a default.\<close>

definition getMarketById :: "(store_op \<Rightarrow> bool) \<Rightarrow> store_op \<Rightarrow> Store \<Rightarrow> string \<Rightarrow> Market option" where
  "getMarketById fails op s marketId = (if fails op then None else findMarket s marketId)"

definition getUserBetCount :: "(store_op \<Rightarrow> bool) \<Rightarrow> Store \<Rightarrow> string \<Rightarrow> string \<Rightarrow> int" where
  "getUserBetCount fails s walletAddress marketId =
     (if fails CountUserBets then 0 else int (length (userBets s walletAddress marketId)))"

definition getUserTotalBetAmount :: "(store_op \<Rightarrow> bool) \<Rightarrow> Store \<Rightarrow> string \<Rightarrow> string \<Rightarrow> int" where
  "getUserTotalBetAmount fails s walletAddress marketId =
     (if fails SumUserBets then 0
      else sum_list (map bet_amount (userBets s walletAddress marketId)))"

section \<open>Confirmation endpoint (app/api/bets/confirm/route.ts)\<close>

record RequestBody =
  rq_txHash :: string
  rq_marketId :: string
  rq_choice :: "BetChoice option"
  rq_amount :: number
  rq_walletAddress :: string

datatype request_error =
    TxHashRequired
  | MarketIdRequired
  | ChoiceInvalid
  | AmountInvalid
  | WalletRequired
  | WalletFormatInvalid

text \<open>
  The fields of the body are typed, so the \<open>typeof\<close> tests of \<open>validateRequest\<close>
  are met; a missing string is the empty string, which is falsy. \<open>isAddress\<close> is
  the library's address test.
\<close>

definition validateRequest :: "(string \<Rightarrow> bool) \<Rightarrow> RequestBody \<Rightarrow> request_error option" where
  "validateRequest isAddress body =
     (if rq_txHash body = [] then Some TxHashRequired
      else if rq_marketId body = [] then Some MarketIdRequired
      else if rq_choice body = None then Some ChoiceInvalid
      else if nle (rq_amount body) (Finite 0) then Some AmountInvalid
      else if rq_walletAddress body = [] then Some WalletRequired
      else if \<not> isAddress (rq_walletAddress body) then Some WalletFormatInvalid
      else None)"

text \<open>
  A response message is kept structured. \<open>formatValidationErrors\<close> and
  \<open>validationErrorResponse\<close> both render the first entry of a list and the number
  of further entries.
\<close>

datatype response_message =
    InvalidJson
  | BadRequest request_error
  | MarketNotFound
  | MarketNotAccepting
  | MarketHasExpired
  | TransactionErrors "(verify_error \<times> nat) option"
  | DecodedDataMismatch
  | RuleErrors "(BetValidationError \<times> nat) option"
  | ContractRuleErrors "(BetValidationError \<times> nat) option"
  | UnexpectedFailure

record Response =
  rs_success :: bool
  rs_betId :: "string option"
  rs_message :: "response_message option"
  rs_code :: "string option"
  rs_http :: nat

definition formatValidationErrors :: "'a list \<Rightarrow> ('a \<times> nat) option" where
  "formatValidationErrors errors =
     (case errors of [] \<Rightarrow> None | e # rest \<Rightarrow> Some (e, length rest))"

definition errorResponse :: "response_message \<Rightarrow> string option \<Rightarrow> nat \<Rightarrow> Response" where
  "errorResponse message c status =
     \<lparr>rs_success = False, rs_betId = None, rs_message = Some message, rs_code = c,
      rs_http = status\<rparr>"

definition internalError :: Response where
  "internalError = errorResponse UnexpectedFailure (Some ''INTERNAL_ERROR'') 500"

definition successResponse :: "string \<Rightarrow> Response" where
  "successResponse betId =
     \<lparr>rs_success = True, rs_betId = Some betId, rs_message = None, rs_code = None,
      rs_http = 200\<rparr>"

text \<open>
  What one request takes from its surroundings. It reads the clock as \<open>env_now\<close>;
  the store gives a new row the identifier \<open>env_newId\<close> and the creation time
  \<open>env_now\<close>.
\<close>

record Env =
  env_now :: int
  env_newId :: string
  env_fails :: "store_op \<Rightarrow> bool"
  env_isAddress :: "string \<Rightarrow> bool"
  env_ledger :: Ledger
  env_txHashUnique :: bool

text \<open>
  Modelled from the spec: the database schema is not among the sources. The spec's
  store has "a uniqueness constraint on (transactionReference)"; \<open>env_txHashUnique\<close>
  says whether the schema declares it on \<open>Bet.txHash\<close>. With the constraint,
  \<open>db.bet.create\<close> throws on a transaction hash that a row already holds.
\<close>

definition txHashTaken :: "Env \<Rightarrow> Store \<Rightarrow> string \<Rightarrow> bool" where
  "txHashTaken env s txHash =
     (env_txHashUnique env \<and> list_ex (\<lambda>b. bet_txHash b = txHash) (st_bets s))"

definition poolUpdate :: "Market \<Rightarrow> BetChoice \<Rightarrow> int \<Rightarrow> Market \<Rightarrow> Market" where
  \<comment> \<open>the \<open>data\<close> of \<open>db.market.update\<close>, computed from the market row read in step 2\<close>
  "poolUpdate market choice amountWei row =
     (if choice = YES then row\<lparr>mk_yesPool := mk_yesPool market + amountWei\<rparr>
      else row\<lparr>mk_noPool := mk_noPool market + amountWei\<rparr>)"

text \<open>
  Steps 8 to 12 of the handler: the amount is converted to the smallest unit, then come
  four writes, each its own store call. An exception of the conversion or of a store
  call is caught by the handler's outer \<open>catch\<close>, which answers \<open>INTERNAL_ERROR\<close>; the
  writes made before it stay.
\<close>

definition betAmountWei :: "number \<Rightarrow> int outcome" where
  \<comment> \<open>\<open>BigInt(Math.floor(amount * 10 ** BET_LIMITS.USDT_DECIMALS))\<close>\<close>
  "betAmountWei amount =
     BigInt_number (Math_floor (nmul amount (Finite (10 ^ USDT_DECIMALS))))"

definition newBet ::
  "Env \<Rightarrow> string \<Rightarrow> string \<Rightarrow> BetChoice \<Rightarrow> int \<Rightarrow> string \<Rightarrow> int \<Rightarrow> Bet" where
  \<comment> \<open>the row of \<open>db.bet.create\<close>, step 8\<close>
  "newBet env txHash marketId choice amountWei walletAddress userBetCount =
     (let newBetNumber = userBetCount + 1
      in \<lparr>bet_id = env_newId env, bet_walletAddress = walletAddress,
           bet_marketId = marketId, bet_choice = choice, bet_amount = amountWei,
           bet_betNumber = newBetNumber, bet_status = ''CONFIRMED'',
           bet_txHash = txHash, bet_createdAt = env_now env\<rparr>)"

definition placedEntry :: "Bet \<Rightarrow> BetHistory" where
  \<comment> \<open>the row of \<open>db.betHistory.create\<close>, step 9\<close>
  "placedEntry bet =
     \<lparr>bh_betId = bet_id bet, bh_marketId = bet_marketId bet,
      bh_wallet = bet_walletAddress bet, bh_action = ''PLACED'',
      bh_reason = ''Bet placed via transaction '' @ bet_txHash bet\<rparr>"

definition poolsUpdated :: "Market \<Rightarrow> Bet \<Rightarrow> Market list \<Rightarrow> Market list" where
  \<comment> \<open>\<open>db.market.update\<close> where \<open>marketId\<close>, step 10\<close>
  "poolsUpdated market bet rows =
     map (\<lambda>row. if mk_marketId row = bet_marketId bet
                 then poolUpdate market (bet_choice bet) (bet_amount bet) row else row) rows"

definition snapshotOf :: "Store \<Rightarrow> string \<Rightarrow> Market \<Rightarrow> PoolSnapshot" where
  \<comment> \<open>the row of \<open>db.poolSnapshot.create\<close>, step 11\<close>
  "snapshotOf s marketId updatedMarket =
     \<lparr>ps_marketId = marketId, ps_yesPool = mk_yesPool updatedMarket,
      ps_noPool = mk_noPool updatedMarket,
      ps_totalBets = int (length (filter (\<lambda>b. bet_marketId b = marketId) (st_bets s)))\<rparr>"

definition settle ::
  "Env \<Rightarrow> Store \<Rightarrow> Market \<Rightarrow> string \<Rightarrow> string \<Rightarrow> BetChoice \<Rightarrow> number \<Rightarrow> string \<Rightarrow> int
     \<Rightarrow> Response \<times> Store" where
  "settle env s market txHash marketId choice amount walletAddress userBetCount =
     (case betAmountWei amount of
        Thrown \<Rightarrow> (internalError, s)
      | Returned amountWei \<Rightarrow>
     (if env_fails env CreateBet \<or> txHashTaken env s txHash then (internalError, s)
      else
        let bet = newBet env txHash marketId choice amountWei walletAddress userBetCount;
            s1 = s\<lparr>st_bets := st_bets s @ [bet]\<rparr>
        in
        if env_fails env CreateBetHistory then (internalError, s1)
        else
          let s2 = s1\<lparr>st_betHistory := st_betHistory s1 @ [placedEntry bet]\<rparr> in
          if env_fails env UpdateMarket \<or> findMarket s2 marketId = None
          then (internalError, s2)
          else
            let s3 = s2\<lparr>st_markets := poolsUpdated market bet (st_markets s2)\<rparr> in
            (case getMarketById (env_fails env) GetUpdatedMarket s3 marketId of
               None \<Rightarrow> (successResponse (bet_id bet), s3)
             | Some updatedMarket \<Rightarrow>
                 (if env_fails env CountMarketBets \<or> env_fails env CreatePoolSnapshot
                  then (internalError, s3)
                  else
                    (successResponse (bet_id bet),
                     s3\<lparr>st_poolSnapshots := st_poolSnapshots s3 @
                          [snapshotOf s3 marketId updatedMarket]\<rparr>)))))"

definition lastBetTime :: "Store \<Rightarrow> string \<Rightarrow> string \<Rightarrow> int option" where
  \<comment> \<open>\<open>findMany\<close> ordered by \<open>createdAt\<close> descending, \<open>take: 1\<close>; then \<open>|| null\<close>\<close>
  "lastBetTime s walletAddress marketId =
     (case map bet_createdAt (userBets s walletAddress marketId) of
        [] \<Rightarrow> None
      | t # ts \<Rightarrow> orUndefined (Some (fold max ts t)))"

definition recentBetTimestamps :: "Store \<Rightarrow> string \<Rightarrow> string \<Rightarrow> int \<Rightarrow> int list" where
  "recentBetTimestamps s walletAddress marketId now =
     map bet_createdAt
       (filter (\<lambda>b. bet_createdAt b \<ge> now - 3600000) (userBets s walletAddress marketId))"

definition isFlaggedWallet :: "(store_op \<Rightarrow> bool) \<Rightarrow> Store \<Rightarrow> string \<Rightarrow> bool" where
  \<comment> \<open>\<open>findUnique(...).catch(() => null)\<close>, then \<open>flaggedWallet?.isActive || false\<close>\<close>
  "isFlaggedWallet fails s walletAddress =
     (if fails FindFlaggedWallet then False
      else (case find (\<lambda>f. fw_wallet f = walletAddress) (st_flaggedWallets s) of
              None \<Rightarrow> False | Some f \<Rightarrow> fw_isActive f))"

definition claimMismatch :: "ValidatedBetTransaction \<Rightarrow> BetChoice \<Rightarrow> number \<Rightarrow> bool" where
  \<comment> \<open>the test of line 202 of the handler\<close>
  "claimMismatch txValidation choice amount =
     (vt_choice txValidation \<noteq> Some choice
      \<or> (case vt_amount txValidation of
            None \<Rightarrow> True
          | Some a \<Rightarrow>
              falsy_number a \<or> ngt (Math_abs (nsub a amount)) (binary64 (1 / 100))))"

text \<open>
  The handler is a sequence of checks with early returns (steps 1 to 7), none of which
  writes, followed by the writes (steps 8 to 12). \<open>confirmChecks\<close> is the first part:
  \<open>Inl\<close> is the response of an early return, \<open>Inr\<close> carries what the writes use.
\<close>

record Checked =
  ck_body :: RequestBody
  ck_market :: Market
  ck_choice :: BetChoice
  ck_userBetCount :: int

definition ruleInput :: "Env \<Rightarrow> Store \<Rightarrow> RequestBody \<Rightarrow> Market \<Rightarrow> BetChoice \<Rightarrow> BetInput" where
  "ruleInput env s body market choice =
     \<lparr>bi_walletAddress = rq_walletAddress body, bi_choice = Some choice,
      bi_amount = rq_amount body,
      bi_lastBetTimestamp = lastBetTime s (rq_walletAddress body) (rq_marketId body),
      bi_currentBetCount =
        getUserBetCount (env_fails env) s (rq_walletAddress body) (rq_marketId body),
      bi_walletTotalBets =
        ndiv (Number (getUserTotalBetAmount (env_fails env) s (rq_walletAddress body)
                        (rq_marketId body)))
          (Finite (10 ^ USDT_DECIMALS)),
      bi_recentBetTimestamps =
        recentBetTimestamps s (rq_walletAddress body) (rq_marketId body) (env_now env),
      bi_totalYesPool = ndiv (Number (mk_yesPool market)) (Finite (10 ^ USDT_DECIMALS)),
      bi_totalNoPool = ndiv (Number (mk_noPool market)) (Finite (10 ^ USDT_DECIMALS)),
      bi_marketStatus = mk_status market,
      bi_marketEndTime = ndiv (timeValue (mk_endDate market)) (Finite 1000),
      bi_isFlagged = isFlaggedWallet (env_fails env) s (rq_walletAddress body)\<rparr>"

definition ruleChecks ::
  "Env \<Rightarrow> Store \<Rightarrow> RequestBody \<Rightarrow> Market \<Rightarrow> BetChoice \<Rightarrow> Response + Checked" where
  \<comment> \<open>steps 4 to 7\<close>
  "ruleChecks env s body market choice =
     (if env_fails env FindLastBet \<or> env_fails env FindRecentBets then Inl internalError
      else
        let inp = ruleInput env s body market choice;
            betValidation = validateBetComprehensive inp (env_now env)
        in
        if \<not> vr_isValid betValidation
        then Inl (errorResponse
                    (RuleErrors (formatValidationErrors (vr_errors betValidation)))
                    (map_option (\<lambda>(e, n). code e)
                       (formatValidationErrors (vr_errors betValidation))) 400)
        else
          let contractValidation = validateBetForContract inp (env_now env) in
          if \<not> vr_isValid contractValidation
          then Inl (errorResponse
                      (ContractRuleErrors
                         (formatValidationErrors (vr_errors contractValidation)))
                      (map_option (\<lambda>(e, n). code e)
                         (formatValidationErrors (vr_errors contractValidation))) 400)
          else Inr \<lparr>ck_body = body, ck_market = market, ck_choice = choice,
                     ck_userBetCount = bi_currentBetCount inp\<rparr>)"

definition confirmChecks :: "Env \<Rightarrow> Store \<Rightarrow> RequestBody option \<Rightarrow> Response + Checked" where
  "confirmChecks env s request =
     (case request of
        None \<Rightarrow> Inl (errorResponse InvalidJson (Some ''INVALID_REQUEST'') 400)
      | Some body \<Rightarrow>
     (case (validateRequest (env_isAddress env) body, rq_choice body) of
        (Some e, c) \<Rightarrow> Inl (errorResponse (BadRequest e) (Some ''INVALID_REQUEST'') 400)
      | (None, None) \<Rightarrow>
          Inl (errorResponse (BadRequest ChoiceInvalid) (Some ''INVALID_REQUEST'') 400)
      | (None, Some choice) \<Rightarrow>
     (case getMarketById (env_fails env) GetMarket s (rq_marketId body) of
        None \<Rightarrow> Inl (errorResponse MarketNotFound (Some ''MARKET_NOT_FOUND'') 404)
      | Some market \<Rightarrow>
          (if mk_status market \<noteq> ''ACTIVE''
           then Inl (errorResponse MarketNotAccepting (Some ''MARKET_NOT_ACTIVE'') 400)
           else if env_now env > mk_endDate market
           then Inl (errorResponse MarketHasExpired (Some ''MARKET_NOT_ACTIVE'') 400)
           else
             let txValidation =
                   validateBetTransaction (env_ledger env) (rq_txHash body) choice
                     (rq_amount body)
             in
             if \<not> vt_isValid txValidation
             then Inl (errorResponse
                         (TransactionErrors (formatValidationErrors (vt_errors txValidation)))
                         (Some ''TX_FAILED'') 400)
             else if claimMismatch txValidation choice (rq_amount body)
             then Inl (errorResponse DecodedDataMismatch (Some ''TX_DATA_MISMATCH'') 400)
             else ruleChecks env s body market choice))))"

definition POST :: "Env \<Rightarrow> Store \<Rightarrow> RequestBody option \<Rightarrow> Response \<times> Store" where
  "POST env s request =
     (case confirmChecks env s request of
        Inl response \<Rightarrow> (response, s)
      | Inr ck \<Rightarrow>
          settle env s (ck_market ck) (rq_txHash (ck_body ck)) (rq_marketId (ck_body ck))
            (ck_choice ck) (rq_amount (ck_body ck)) (rq_walletAddress (ck_body ck))
            (ck_userBetCount ck))"

section \<open>Live statistics stream (app/api/markets/live-stats/route.ts)\<close>

record ActiveConnection =
  ac_marketId :: string
  ac_walletAddress :: "string option"
  ac_connectedAt :: int
  ac_lastHeartbeat :: int

text \<open>
  Each accepted request builds its own \<open>ReadableStream\<close>, whose \<open>start\<close> calls
  \<open>setInterval\<close>. A \<open>Poller\<close> is one such interval timer with the variables its
  callback closes over: the market row read when the request was accepted
  (\<open>market\<close>), \<open>prevYesPool\<close>, \<open>prevNoPool\<close> and \<open>isStreamClosed\<close>.
\<close>

record Poller =
  pl_connId :: string
  pl_marketId :: string
  pl_market :: Market
  pl_prevYesPool :: int
  pl_prevNoPool :: int
  pl_isStreamClosed :: bool

record Hub =
  activeConnections :: "(string \<times> ActiveConnection) list"
  pollers :: "Poller list"

definition registerConnection ::
  "int \<Rightarrow> string \<Rightarrow> string \<Rightarrow> string option \<Rightarrow> Hub \<Rightarrow> Hub" where
  "registerConnection now connId marketId walletAddress hub =
     hub\<lparr>activeConnections :=
           AList.update connId
             \<lparr>ac_marketId = marketId, ac_walletAddress = walletAddress,
              ac_connectedAt = now, ac_lastHeartbeat = now\<rparr>
             (activeConnections hub)\<rparr>"

definition unregisterConnection :: "string \<Rightarrow> Hub \<Rightarrow> Hub" where
  "unregisterConnection connId hub =
     hub\<lparr>activeConnections := AList.delete connId (activeConnections hub)\<rparr>"

definition updateHeartbeat :: "int \<Rightarrow> string \<Rightarrow> Hub \<Rightarrow> Hub" where
  "updateHeartbeat now connId hub =
     (case map_of (activeConnections hub) connId of
        None \<Rightarrow> hub
      | Some conn \<Rightarrow>
          hub\<lparr>activeConnections :=
                AList.update connId (conn\<lparr>ac_lastHeartbeat := now\<rparr>)
                  (activeConnections hub)\<rparr>)"

text \<open>
  A frame is the event type with the fields of its payload. Pool amounts are kept as
  the \<open>bigint\<close>s that \<open>formatUSDT\<close> of this file prints, and a percentage as the
  number that \<open>toFixed(2)\<close> prints; timestamps are left out.
\<close>

datatype frame =
    POOL_UPDATE int int int real real int
  | MARKET_UPDATE string "string option" int bool
  | HEARTBEAT
  | ERROR string

definition calculatePoolPercentages :: "int \<Rightarrow> int \<Rightarrow> real \<times> real" where
  "calculatePoolPercentages yesPool noPool =
     (let total = yesPool + noPool in
      if total = 0 then (0, 0)
      else (real_of_int ((yesPool * 10000) sdiv total) / 100,
            real_of_int ((noPool * 10000) sdiv total) / 100))"

datatype poll_op = PollFindMarket | PollCountBets

text \<open>
  One run of the interval callback: the frames it enqueues and the timer afterwards
  (\<open>None\<close> once \<open>clearInterval\<close> has been called). The \<open>catch\<close> inside the callback
  answers a failed store call with a \<open>POLL_ERROR\<close> frame and keeps the timer.
\<close>

definition pollTick ::
  "(poll_op \<Rightarrow> bool) \<Rightarrow> int \<Rightarrow> Store \<Rightarrow> Poller \<Rightarrow> frame list \<times> Poller option" where
  "pollTick fails now s p =
     (if pl_isStreamClosed p then ([], None)
      else if fails PollFindMarket then ([ERROR ''POLL_ERROR''], Some p)
      else
        (case findMarket s (pl_marketId p) of
           None \<Rightarrow> ([ERROR ''MARKET_DELETED''], None)
         | Some currentMarket \<Rightarrow>
             (if mk_yesPool currentMarket \<noteq> pl_prevYesPool p
                 \<or> mk_noPool currentMarket \<noteq> pl_prevNoPool p
                 \<or> mk_status currentMarket \<noteq> mk_status (pl_market p)
              then
                let p' = p\<lparr>pl_prevYesPool := mk_yesPool currentMarket,
                            pl_prevNoPool := mk_noPool currentMarket\<rparr>
                in
                if fails PollCountBets then ([ERROR ''POLL_ERROR''], Some p')
                else
                  let totalBets =
                        int (length (filter (\<lambda>b. bet_marketId b = pl_marketId p) (st_bets s)));
                      (yesPercent, noPercent) =
                        calculatePoolPercentages (mk_yesPool currentMarket)
                          (mk_noPool currentMarket);
                      poolFrame =
                        POOL_UPDATE (mk_yesPool currentMarket) (mk_noPool currentMarket)
                          (mk_yesPool currentMarket + mk_noPool currentMarket)
                          yesPercent noPercent totalBets
                  in
                  if mk_status currentMarket \<noteq> mk_status (pl_market p)
                  then
                    let timeRemaining =
                          max 0 \<lfloor>real_of_int (mk_endDate currentMarket - now) / 1000\<rfloor>
                    in ([poolFrame,
                         MARKET_UPDATE (mk_status currentMarket) (mk_winner currentMarket)
                           timeRemaining (timeRemaining = 0)],
                        Some p')
                  else ([poolFrame], Some p')
              else ([HEARTBEAT], Some p))))"

text \<open>
  The callback of the timer of connection \<open>connId\<close>, as it acts on the hub: unless the
  stream is closed it first records the heartbeat in the registry, then it polls.
\<close>

definition intervalTick ::
  "(poll_op \<Rightarrow> bool) \<Rightarrow> int \<Rightarrow> Store \<Rightarrow> Hub \<Rightarrow> string \<Rightarrow> frame list \<times> Hub" where
  "intervalTick fails now s hub connId =
     (case find (\<lambda>p. pl_connId p = connId) (pollers hub) of
        None \<Rightarrow> ([], hub)
      | Some p \<Rightarrow>
          let hub1 = (if pl_isStreamClosed p then hub else updateHeartbeat now connId hub);
              (frames, timer) = pollTick fails now s p
          in (frames,
              hub1\<lparr>pollers :=
                     (case timer of
                        None \<Rightarrow> filter (\<lambda>q. pl_connId q \<noteq> connId) (pollers hub1)
                      | Some p' \<Rightarrow>
                          map (\<lambda>q. if pl_connId q = connId then p' else q) (pollers hub1))\<rparr>))"

datatype sse_response = PlainError nat | EventStreamError string nat | EventStream

definition isValidMarketId :: "string \<Rightarrow> bool" where
  \<comment> \<open>\<open>/^[a-zA-Z0-9\-]{1,100}$/\<close>\<close>
  "isValidMarketId marketId =
     (1 \<le> length marketId \<and> length marketId \<le> 100
      \<and> list_all (\<lambda>c. let n = (of_char c :: nat) in
                        (97 \<le> n \<and> n \<le> 122) \<or> (65 \<le> n \<and> n \<le> 90)
                        \<or> (48 \<le> n \<and> n \<le> 57) \<or> n = 45) marketId)"

text \<open>
  \<open>GET\<close>: the query parameters are \<open>None\<close> when absent; an empty string is falsy.
  \<open>lookupFails\<close> says that the first market lookup throws, which the outer \<open>catch\<close>
  answers with status 500. The connection identifier is drawn by
  \<open>generateConnectionId\<close>.
\<close>

definition falsy :: "string option \<Rightarrow> bool" where
  "falsy x = (case x of None \<Rightarrow> True | Some v \<Rightarrow> v = [])"

definition GET ::
  "(string \<Rightarrow> bool) \<Rightarrow> bool \<Rightarrow> int \<Rightarrow> string \<Rightarrow> Store \<Rightarrow> Hub
     \<Rightarrow> string option \<Rightarrow> string option \<Rightarrow> sse_response \<times> Hub" where
  "GET isAddress lookupFails now connId s hub marketIdParam walletParam =
     (case marketIdParam of
        None \<Rightarrow> (PlainError 400, hub)
      | Some marketId \<Rightarrow>
          (if marketId = [] then (PlainError 400, hub)
           else if \<not> isValidMarketId marketId then (PlainError 400, hub)
           else if \<not> falsy walletParam \<and> \<not> isAddress (case walletParam of None \<Rightarrow> [] | Some w \<Rightarrow> w)
           then (PlainError 400, hub)
           else if lookupFails
           then (EventStreamError ''INTERNAL_ERROR'' 500, unregisterConnection connId hub)
           else
             (case findMarket s marketId of
                None \<Rightarrow> (EventStreamError ''MARKET_NOT_FOUND'' 404, hub)
              | Some market \<Rightarrow>
                  let walletAddress = (if falsy walletParam then None else walletParam);
                      hub1 = registerConnection now connId marketId walletAddress hub
                  in (EventStream,
                      hub1\<lparr>pollers := pollers hub1 @
                             [\<lparr>pl_connId = connId, pl_marketId = marketId,
                               pl_market = market,
                               pl_prevYesPool = mk_yesPool market,
                               pl_prevNoPool = mk_noPool market,
                               pl_isStreamClosed = False\<rparr>]\<rparr>))))"

text \<open>The \<open>abort\<close> listener of a stream: it closes that stream, clears that stream's
  timer and removes that connection from the registry.\<close>

definition abort :: "string \<Rightarrow> Hub \<Rightarrow> Hub" where
  "abort connId hub =
     unregisterConnection connId
       (hub\<lparr>pollers := filter (\<lambda>p. pl_connId p \<noteq> connId) (pollers hub)\<rparr>)"

definition pollingLoops :: "Hub \<Rightarrow> string \<Rightarrow> nat" where
  "pollingLoops hub marketId =
     length (filter (\<lambda>p. pl_marketId p = marketId) (pollers hub))"

definition subscribers :: "Hub \<Rightarrow> string \<Rightarrow> nat" where
  "subscribers hub marketId =
     length (filter (\<lambda>(connId, conn). ac_marketId conn = marketId) (activeConnections hub))"

section \<open>Auxiliary notions for the properties\<close>

text \<open>The codes of the errors a validation result lists.\<close>

definition errorCodes :: "ValidationResult \<Rightarrow> string set" where
  "errorCodes r = set (map code (vr_errors r))"

text \<open>None of the five checks that \<open>validateBetComprehensive\<close> runs first reports
  an error: wallet address, choice, amount, market liveness, wallet flag.\<close>

definition preliminaryChecksPass :: "BetInput \<Rightarrow> int \<Rightarrow> bool" where
  "preliminaryChecksPass inp currentTime =
     (isValidAddress (bi_walletAddress inp) \<and> bi_choice inp \<noteq> None
      \<and> isFinite (bi_amount inp) \<and> \<not> nle (bi_amount inp) (Finite 0)
      \<and> Number_isInteger (bi_amount inp)
      \<and> \<not> nlt (bi_amount inp) MIN_BET \<and> \<not> ngt (bi_amount inp) MAX_BET
      \<and> bi_marketStatus inp = ''ACTIVE''
      \<and> \<not> ngt (timeValue currentTime) (nmul (bi_marketEndTime inp) (Finite 1000))
      \<and> \<not> bi_isFlagged inp)"

text \<open>
  The stores that the four writes of a settlement leave one after the other: the Bet
  row, the audit entry, the pool increment, the pool snapshot.
\<close>

definition withBet :: "Bet \<Rightarrow> Store \<Rightarrow> Store" where
  "withBet bet s = s\<lparr>st_bets := st_bets s @ [bet]\<rparr>"

definition withAudit :: "Bet \<Rightarrow> Store \<Rightarrow> Store" where
  "withAudit bet s = s\<lparr>st_betHistory := st_betHistory s @ [placedEntry bet]\<rparr>"

definition withPool :: "Market \<Rightarrow> Bet \<Rightarrow> Store \<Rightarrow> Store" where
  "withPool market bet s = s\<lparr>st_markets := poolsUpdated market bet (st_markets s)\<rparr>"

definition withSnapshot :: "PoolSnapshot \<Rightarrow> Store \<Rightarrow> Store" where
  "withSnapshot snapshot s = s\<lparr>st_poolSnapshots := st_poolSnapshots s @ [snapshot]\<rparr>"

text \<open>
  The transaction \<open>txHash\<close> is verified on the ledger and its payload decodes to the
  pair \<open>(c, a)\<close>: it has a successful receipt addressed to the contract, its details
  can be read, the receipt passes \<open>validateTransactionReceipt\<close>, and
  \<open>decodePlaceBetTransaction\<close> accepts its input data with that pair.
\<close>

definition onChainBet :: "Ledger \<Rightarrow> string \<Rightarrow> BetChoice \<Rightarrow> int \<Rightarrow> bool" where
  "onChainBet ledger txHash c a =
     (oc_isValid (validateTransactionOnChain ledger txHash)
      \<and> (case getTransactionDetails ledger txHash of
            None \<Rightarrow> False
          | Some d \<Rightarrow>
              td_data d \<noteq> []
              \<and> validateTransactionReceipt ledger
                    (oc_receipt (validateTransactionOnChain ledger txHash)) (td_gas d) = []
              \<and> decodePlaceBetTransaction (td_data d) = decode_success c a))"

subsection \<open>Example data\<close>

definition exampleWallet :: string where
  "exampleWallet = ''0x66e428c3f67a68a47b7bc798c2c77b519b79260d''"

definition flaggedAtCap :: BetInput where
  "flaggedAtCap =
     \<lparr>bi_walletAddress = exampleWallet, bi_choice = Some YES, bi_amount = Finite 5,
      bi_lastBetTimestamp = None, bi_currentBetCount = 10, bi_walletTotalBets = Finite 0,
      bi_recentBetTimestamps = [], bi_totalYesPool = Finite 0, bi_totalNoPool = Finite 0,
      bi_marketStatus = ''ACTIVE'', bi_marketEndTime = Finite 2000, bi_isFlagged = True\<rparr>"

definition activeMarket :: Market where
  "activeMarket =
     \<lparr>mk_marketId = ''m1'', mk_status = ''ACTIVE'', mk_winner = None, mk_yesPool = 0,
      mk_noPool = 0, mk_endDate = 99000000\<rparr>"

definition emptyStore :: Store where
  "emptyStore =
     \<lparr>st_markets = [activeMarket], st_bets = [], st_betHistory = [], st_poolSnapshots = [],
      st_flaggedWallets = []\<rparr>"

definition closedStore :: Store where
  "closedStore = emptyStore\<lparr>st_markets := [activeMarket\<lparr>mk_status := ''CLOSED''\<rparr>]\<rparr>"

definition firstPoller :: Poller where
  "firstPoller =
     \<lparr>pl_connId = ''c1'', pl_marketId = ''m1'', pl_market = activeMarket,
      pl_prevYesPool = 0, pl_prevNoPool = 0, pl_isStreamClosed = False\<rparr>"

definition emptyHub :: Hub where
  "emptyHub = \<lparr>activeConnections = [], pollers = []\<rparr>"

definition oneSubscriber :: Hub where
  "oneSubscriber =
     snd (GET isValidAddress False 1000 ''c1'' emptyStore emptyHub (Some ''m1'') None)"

definition twoSubscribers :: Hub where
  "twoSubscribers =
     snd (GET isValidAddress False 1001 ''c2'' emptyStore oneSubscriber (Some ''m1'') None)"

text \<open>A transaction \<open>0xa1\<close> to the contract that calls \<open>placeBet(YES, 5000000)\<close>, and a
  request that claims it as a bet of 5 USDT on YES.\<close>

definition exampleContract :: string where
  "exampleContract = ''0x1111111111111111111111111111111111111111''"

definition examplePayload :: string where
  "examplePayload =
     PLACE_BET @ ''0000000000000000000000000000000000000000000000000000000000000000''
       @ ''00000000000000000000000000000000000000000000000000000000004c4b40''"

definition exampleReceipt :: TransactionReceipt where
  "exampleReceipt =
     \<lparr>rc_status = ReceiptSuccess, rc_to = Some exampleContract, rc_blockNumber = 100,
      rc_gasUsed = 50000\<rparr>"

definition exampleLedger :: Ledger where
  "exampleLedger =
     \<lparr>getTransactionReceipt =
        (\<lambda>h. if h = ''0xa1'' then Returned (Some exampleReceipt) else Thrown),
      getTransaction =
        (\<lambda>h. if h = ''0xa1''
              then Returned \<lparr>tx_input = examplePayload, tx_gas = 100000, tx_gasPrice = 1\<rparr>
              else Thrown),
      getBlockNumber = Returned 110,
      PREDICTION_MARKET = exampleContract\<rparr>"

definition exampleEnv :: Env where
  "exampleEnv =
     \<lparr>env_now = 1000000, env_newId = ''bet1'', env_fails = (\<lambda>op. False),
      env_isAddress = isValidAddress, env_ledger = exampleLedger, env_txHashUnique = True\<rparr>"

definition exampleRequest :: RequestBody where
  "exampleRequest =
     \<lparr>rq_txHash = ''0xa1'', rq_marketId = ''m1'', rq_choice = Some YES, rq_amount = Finite 5,
      rq_walletAddress = exampleWallet\<rparr>"

definition exampleBet :: Bet where
  "exampleBet =
     \<lparr>bet_id = ''bet1'', bet_walletAddress = exampleWallet, bet_marketId = ''m1'',
      bet_choice = YES, bet_amount = 5000000, bet_betNumber = 1, bet_status = ''CONFIRMED'',
      bet_txHash = ''0xa1'', bet_createdAt = 1000000\<rparr>"

definition settledStore :: Store where
  "settledStore =
     \<lparr>st_markets = [activeMarket\<lparr>mk_yesPool := 5000000\<rparr>],
      st_bets = [exampleBet],
      st_betHistory = [placedEntry exampleBet],
      st_poolSnapshots =
        [\<lparr>ps_marketId = ''m1'', ps_yesPool = 5000000, ps_noPool = 0, ps_totalBets = 1\<rparr>],
      st_flaggedWallets = []\<rparr>"

text \<open>The same transaction with an amount of 4999999, one unit below \<open>MIN_BET_WEI\<close>.\<close>

definition lowPayload :: string where
  "lowPayload =
     PLACE_BET @ ''0000000000000000000000000000000000000000000000000000000000000000''
       @ ''00000000000000000000000000000000000000000000000000000000004c4b3f''"

definition lowLedger :: Ledger where
  "lowLedger =
     exampleLedger\<lparr>getTransaction :=
       (\<lambda>h. Returned \<lparr>tx_input = lowPayload, tx_gas = 100000, tx_gasPrice = 1\<rparr>)\<rparr>"


text \<open>The same transaction with an amount of 8000001 units, that is 8.000001 USDT, and a
  request that claims it with the amount \<open>8.000001\<close>: the number that this JSON text
  denotes is the binary64 value nearest to it.\<close>

definition fractionalPayload :: string where
  "fractionalPayload =
     PLACE_BET @ ''0000000000000000000000000000000000000000000000000000000000000000''
       @ ''00000000000000000000000000000000000000000000000000000000007a1201''"

definition fractionalLedger :: Ledger where
  "fractionalLedger =
     exampleLedger\<lparr>getTransaction :=
       (\<lambda>h. Returned \<lparr>tx_input = fractionalPayload, tx_gas = 100000, tx_gasPrice = 1\<rparr>)\<rparr>"

definition fractionalRequest :: RequestBody where
  "fractionalRequest = exampleRequest\<lparr>rq_amount := binary64 (8000001 / 1000000)\<rparr>"

section \<open>Properties of JavaScript numbers\<close>

lemma pow2_powi: "pow2 k = 2 powi k"
  by (cases "0 \<le> k") (simp_all add: pow2_def power_int_def power_one_over [symmetric] inverse_eq_divide)

lemma pow2_pos [simp]: "0 < pow2 k"
  by (simp add: pow2_powi)

lemma abs_pow2 [simp]: "\<bar>pow2 k\<bar> = pow2 k"
  using pow2_pos [of k] by linarith

lemma pow2_nonzero [simp]: "pow2 k \<noteq> 0"
  using pow2_pos [of k] by linarith

lemma pow2_add: "pow2 (j + k) = pow2 j * pow2 k"
  by (simp add: pow2_powi power_int_add)

lemma pow2_mono: "j \<le> k \<Longrightarrow> pow2 j \<le> pow2 k"
  by (simp add: pow2_powi power_int_increasing)

lemma pow2_less_iff: "pow2 j < pow2 k \<longleftrightarrow> j < k"
proof
  assume "pow2 j < pow2 k"
  then show "j < k" using pow2_mono [of k j] by (cases "j < k") simp_all
next
  assume "j < k"
  then show "pow2 j < pow2 k" by (simp add: pow2_powi power_int_strict_increasing)
qed

lemma floor_log2_bounds:
  assumes "0 < x"
  shows "pow2 (floor_log2 x) \<le> x \<and> x < pow2 (floor_log2 x + 1)"
proof (cases "1 \<le> x")
  case True
  then have n: "0 < \<lfloor>x\<rfloor>" by linarith
  from bitlen_bounds [OF n] have lo: "2 ^ nat (bitlen \<lfloor>x\<rfloor> - 1) \<le> \<lfloor>x\<rfloor>"
    and hi: "\<lfloor>x\<rfloor> < 2 ^ nat (bitlen \<lfloor>x\<rfloor>)" by simp_all
  have b1: "1 \<le> bitlen \<lfloor>x\<rfloor>" using n by (simp add: bitlen_alt_def)
  have "real_of_int (2 ^ nat (bitlen \<lfloor>x\<rfloor> - 1)) \<le> real_of_int \<lfloor>x\<rfloor>"
    using lo by (simp only: of_int_le_iff)
  also have "\<dots> \<le> x" by simp
  finally have l: "pow2 (bitlen \<lfloor>x\<rfloor> - 1) \<le> x" using b1 by (simp add: pow2_def)
  have "\<lfloor>x\<rfloor> + 1 \<le> 2 ^ nat (bitlen \<lfloor>x\<rfloor>)" using hi by simp
  then have "real_of_int (\<lfloor>x\<rfloor> + 1) \<le> real_of_int (2 ^ nat (bitlen \<lfloor>x\<rfloor>))"
    by (simp only: of_int_le_iff)
  then have "real_of_int \<lfloor>x\<rfloor> + 1 \<le> 2 ^ nat (bitlen \<lfloor>x\<rfloor>)" by simp
  moreover have "x < real_of_int \<lfloor>x\<rfloor> + 1" by linarith
  ultimately have "x < 2 ^ nat (bitlen \<lfloor>x\<rfloor>)" by (rule less_le_trans [rotated])
  then have "x < pow2 (bitlen \<lfloor>x\<rfloor>)" using b1 by (simp add: pow2_def)
  with l True show ?thesis by (simp add: floor_log2_def)
next
  case False
  define n where "n = \<lceil>1 / x\<rceil> - 1"
  from False assms have "1 < 1 / x" by simp
  then have n: "0 < n" unfolding n_def by linarith
  have nx: "real_of_int n < 1 / x" "1 / x \<le> real_of_int n + 1"
    unfolding n_def by linarith+
  from bitlen_bounds [OF n] have lo: "2 ^ nat (bitlen n - 1) \<le> n"
    and hi: "n < 2 ^ nat (bitlen n)" by simp_all
  have b1: "1 \<le> bitlen n" using n by (simp add: bitlen_alt_def)
  have "n + 1 \<le> 2 ^ nat (bitlen n)" using hi by simp
  then have "real_of_int (n + 1) \<le> real_of_int (2 ^ nat (bitlen n))"
    by (simp only: of_int_le_iff)
  then have "real_of_int n + 1 \<le> (2::real) ^ nat (bitlen n)" by simp
  with nx have "1 / x \<le> 2 ^ nat (bitlen n)" by linarith
  then have l: "pow2 (- bitlen n) \<le> x"
    using assms b1 by (simp add: pow2_def field_simps)
  have "real_of_int (2 ^ nat (bitlen n - 1)) \<le> real_of_int n"
    using lo by (simp only: of_int_le_iff)
  then have "(2::real) ^ nat (bitlen n - 1) \<le> real_of_int n" by simp
  with nx have "(2::real) ^ nat (bitlen n - 1) < 1 / x" by linarith
  then have "x < pow2 (- bitlen n + 1)"
    using assms b1 by (cases "bitlen n = 1") (simp_all add: pow2_def field_simps)
  with l False show ?thesis by (simp add: floor_log2_def n_def)
qed

lemma floor_log2_less:
  assumes "0 < x" and "x < pow2 k"
  shows "floor_log2 x < k"
proof -
  from floor_log2_bounds [OF assms(1)] assms(2) have "pow2 (floor_log2 x) < pow2 k" by linarith
  then show ?thesis by (simp add: pow2_less_iff)
qed

lemma floor_log2_ge:
  assumes "pow2 k \<le> x"
  shows "k \<le> floor_log2 x"
proof -
  have "0 < x" using assms pow2_pos [of k] by linarith
  from floor_log2_bounds [OF this] assms have "pow2 k < pow2 (floor_log2 x + 1)" by linarith
  then show ?thesis by (simp add: pow2_less_iff)
qed

lemma round_half_even_int [simp]: "round_half_even (of_int n) = n"
  by (simp add: round_half_even_def)

lemma round_half_even_bounds:
  "real_of_int (round_half_even y) \<le> y + 1 / 2 \<and> y - 1 / 2 \<le> real_of_int (round_half_even y)"
  unfolding round_half_even_def Let_def by (auto; linarith)

lemma round_half_even_ge:
  assumes "real_of_int k \<le> y" shows "k \<le> round_half_even y"
proof -
  have "k \<le> \<lfloor>y\<rfloor>" using assms by linarith
  moreover have "\<lfloor>y\<rfloor> \<le> round_half_even y" by (simp add: round_half_even_def Let_def)
  ultimately show ?thesis by linarith
qed

lemma round_half_even_le:
  assumes "y \<le> real_of_int k" shows "round_half_even y \<le> k"
proof -
  have "round_half_even y \<le> \<lceil>y\<rceil>"
    unfolding round_half_even_def Let_def by (auto; linarith)
  moreover have "\<lceil>y\<rceil> \<le> k" using assms by linarith
  ultimately show ?thesis by linarith
qed


lemma binary64_exact:
  assumes x: "x = real_of_int m * pow2 q" and m: "\<bar>m\<bar> < 2 ^ 53"
    and q: "- 1074 \<le> q" "q \<le> 971"
  shows "binary64 x = Finite x"
proof (cases "x = 0")
  case True
  then show ?thesis by (simp add: binary64_def)
next
  case False
  define a where "a = \<bar>x\<bar>"
  define e where "e = max (floor_log2 a - 52) (- 1074)"
  have a: "a = real_of_int \<bar>m\<bar> * pow2 q"
    by (simp add: a_def x abs_mult)
  have apos: "0 < a" using False by (simp add: a_def)
  have "real_of_int \<bar>m\<bar> < real_of_int (2 ^ 53)" using m by (simp only: of_int_less_iff)
  then have "real_of_int \<bar>m\<bar> < 2 ^ 53" by simp
  then have "real_of_int \<bar>m\<bar> < pow2 53" by (simp add: pow2_def)
  then have "a < pow2 53 * pow2 q" unfolding a by (simp add: mult_strict_right_mono)
  then have alt: "a < pow2 (53 + q)" by (simp add: pow2_add)
  from floor_log2_less [OF apos alt] q have eq: "e \<le> q" by (simp add: e_def)
  have split: "pow2 q = pow2 (q - e) * pow2 e"
    by (simp add: pow2_add [symmetric])
  have "pow2 (q - e) = real_of_int (2 ^ nat (q - e))"
    using eq by (simp add: pow2_def)
  then have quot: "a / pow2 e = real_of_int (\<bar>m\<bar> * 2 ^ nat (q - e))"
    unfolding a by (subst split) simp
  have m': "real_of_int (round_half_even (a / pow2 e)) * pow2 e = a"
    unfolding quot round_half_even_int
    using quot by (simp add: field_simps)
  have "pow2 (53 + q) \<le> pow2 1024" using q by (intro pow2_mono) simp
  with alt have small: "\<not> a \<ge> pow2 1024" by linarith
  have sg: "sgn x * a = x" by (simp add: a_def sgn_if)
  show ?thesis
    using False small sg
    by (simp add: binary64_def Let_def a_def [symmetric] e_def [symmetric] m' mult.assoc)
qed

lemma binary64_zero [simp]: "binary64 0 = Finite 0"
  by (simp add: binary64_def)

lemma binary64_of_int:
  assumes "\<bar>n\<bar> < 2 ^ 53"
  shows "binary64 (real_of_int n) = Finite (real_of_int n)"
  by (rule binary64_exact [where m = n and q = 0]) (use assms in \<open>simp_all add: pow2_def\<close>)

lemma Number_exact: "\<bar>n\<bar> < 2 ^ 53 \<Longrightarrow> Number n = Finite (real_of_int n)"
  by (simp add: Number_def binary64_of_int)

lemma binary64_numeral:
  assumes "(numeral k :: int) < 2 ^ 53"
  shows "binary64 (numeral k) = Finite (numeral k)"
  using binary64_of_int [of "numeral k"] assms by simp

lemma binary64_half_integer:
  assumes "\<bar>n\<bar> < 2 ^ 53"
  shows "binary64 (real_of_int n / 2) = Finite (real_of_int n / 2)"
  by (rule binary64_exact [where m = n and q = "- 1"]) (use assms in \<open>simp_all add: pow2_def\<close>)


lemma floor_log2_eq:
  assumes "pow2 k \<le> x" and "x < pow2 (k + 1)"
  shows "floor_log2 x = k"
proof -
  have "0 < x" using assms(1) pow2_pos [of k] by linarith
  from floor_log2_less [OF this assms(2)] floor_log2_ge [OF assms(1)] show ?thesis by simp
qed

lemma binary64_normal:
  assumes lo: "pow2 k \<le> \<bar>x\<bar>" and hi: "\<bar>x\<bar> < pow2 (k + 1)"
    and k: "- 1022 \<le> k" "k \<le> 1022"
  shows "binary64 x =
           Finite (sgn x * real_of_int (round_half_even (\<bar>x\<bar> / pow2 (k - 52))) * pow2 (k - 52))"
proof -
  have "0 < \<bar>x\<bar>" using lo pow2_pos [of k] by linarith
  then have x0: "x \<noteq> 0" by simp
  have fl: "floor_log2 \<bar>x\<bar> = k" using lo hi by (rule floor_log2_eq)
  have e: "max (floor_log2 \<bar>x\<bar> - 52) (- 1074) = k - 52" using k by (simp add: fl)
  have split: "pow2 (k + 1) = pow2 53 * pow2 (k - 52)"
    unfolding pow2_add [symmetric] by (rule arg_cong [where f = pow2]) simp
  with hi have "\<bar>x\<bar> / pow2 (k - 52) < pow2 53" by (simp add: field_simps)
  then have "\<bar>x\<bar> / pow2 (k - 52) \<le> real_of_int (2 ^ 53)" by (simp add: pow2_def)
  then have "round_half_even (\<bar>x\<bar> / pow2 (k - 52)) \<le> 2 ^ 53" by (rule round_half_even_le)
  then have "real_of_int (round_half_even (\<bar>x\<bar> / pow2 (k - 52))) \<le> real_of_int (2 ^ 53)"
    by (simp only: of_int_le_iff)
  then have "real_of_int (round_half_even (\<bar>x\<bar> / pow2 (k - 52))) \<le> pow2 53"
    by (simp add: pow2_def)
  then have "real_of_int (round_half_even (\<bar>x\<bar> / pow2 (k - 52))) * pow2 (k - 52)
               \<le> pow2 53 * pow2 (k - 52)"
    by (simp add: mult_right_mono)
  also have "\<dots> = pow2 (k + 1)" by (simp only: split)
  also have "\<dots> < pow2 1024" using k by (simp add: pow2_less_iff)
  finally have "\<not> real_of_int (round_half_even (\<bar>x\<bar> / pow2 (k - 52))) * pow2 (k - 52)
                    \<ge> pow2 1024" by simp
  then show ?thesis using x0 by (simp add: binary64_def Let_def e)
qed

lemma binary64_overflow:
  assumes "pow2 1024 \<le> \<bar>x\<bar>"
  shows "binary64 x = signed_infinity (0 < x)"
proof -
  define e where "e = floor_log2 \<bar>x\<bar> - 52"
  have apos: "0 < \<bar>x\<bar>" using assms pow2_pos [of 1024] by linarith
  then have x0: "x \<noteq> 0" by simp
  from floor_log2_ge [OF assms] have fl: "1024 \<le> floor_log2 \<bar>x\<bar>" .
  then have m: "max (floor_log2 \<bar>x\<bar> - 52) (- 1074) = e" by (simp add: e_def)
  from floor_log2_bounds [OF apos] have "pow2 (52 + e) \<le> \<bar>x\<bar>" by (simp add: e_def)
  then have "pow2 52 * pow2 e \<le> \<bar>x\<bar>" by (simp add: pow2_add)
  then have "pow2 52 \<le> \<bar>x\<bar> / pow2 e" by (simp add: field_simps)
  then have "real_of_int (2 ^ 52) \<le> \<bar>x\<bar> / pow2 e" by (simp add: pow2_def)
  then have "2 ^ 52 \<le> round_half_even (\<bar>x\<bar> / pow2 e)" by (rule round_half_even_ge)
  then have "real_of_int (2 ^ 52) \<le> real_of_int (round_half_even (\<bar>x\<bar> / pow2 e))"
    by (simp only: of_int_le_iff)
  then have "pow2 52 \<le> real_of_int (round_half_even (\<bar>x\<bar> / pow2 e))"
    by (simp add: pow2_def)
  then have "pow2 52 * pow2 e \<le> real_of_int (round_half_even (\<bar>x\<bar> / pow2 e)) * pow2 e"
    by (simp add: mult_right_mono)
  moreover have "pow2 1024 \<le> pow2 52 * pow2 e"
    unfolding pow2_add [symmetric] using fl by (intro pow2_mono) (simp add: e_def)
  ultimately have "pow2 1024 \<le> real_of_int (round_half_even (\<bar>x\<bar> / pow2 e)) * pow2 e"
    by linarith
  then show ?thesis using x0 by (simp add: binary64_def Let_def m signed_infinity_def)
qed


lemma ngt_Finite [simp]: "ngt (Finite a) (Finite b) = (b < a)"
  by (simp add: ngt_def)

lemma nle_Finite [simp]: "nle (Finite a) (Finite b) = (a \<le> b)"
  by (auto simp add: nle_def)

lemma nge_Finite [simp]: "nge (Finite a) (Finite b) = (b \<le> a)"
  by (simp add: nge_def)

lemma nsub_Finite [simp]: "nsub (Finite a) (Finite b) = binary64 (a - b)"
  by (simp add: nsub_def)

lemma timeValue_simp [simp]: "timeValue t = Finite (real_of_int t)"
  by (simp add: timeValue_def)

lemma isInteger_of_int [simp]: "isInteger (of_int n)"
  by (simp add: isInteger_def)

lemma isInteger_numeral [simp]: "isInteger (numeral k)"
  using isInteger_of_int [of "numeral k"] by simp

lemma isInteger_floor: "isInteger x \<Longrightarrow> real_of_int \<lfloor>x\<rfloor> = x"
  by (simp add: isInteger_def)

section \<open>Properties of the decoder\<close>

lemma decode_failure_simps [simp]:
  "dec_isValid (decode_failure e) = False" "dec_choice (decode_failure e) = None"
  "dec_amount (decode_failure e) = None" "dec_error (decode_failure e) = Some e"
  by (simp_all add: decode_failure_def)

lemma decode_success_simps [simp]:
  "dec_isValid (decode_success c a) = True" "dec_choice (decode_success c a) = Some c"
  "dec_amount (decode_success c a) = Some a" "dec_error (decode_success c a) = None"
  by (simp_all add: decode_success_def)

lemma PLACE_BET_length: "length PLACE_BET = 10"
  by (simp add: PLACE_BET_def)

lemma BigInt_hex_zero_word:
  "BigInt_hex ''0000000000000000000000000000000000000000000000000000000000000000'' = Some 0"
  by (simp add: BigInt_hex_def trimEnd_def isStrWhiteSpace_def hexDigit_def)

lemma BigInt_hex_min_word:
  "BigInt_hex ''00000000000000000000000000000000000000000000000000000000004c4b40'' = Some 5000000"
  by (simp add: BigInt_hex_def trimEnd_def isStrWhiteSpace_def hexDigit_def)

text \<open>
  Claim C8. The decoder fails on every payload whose first ten characters are not the
  \<open>placeBet\<close> selector, and on every payload whose parameter section is not 128
  characters long. On a payload made of the selector and two 64-character words that
  denote a choice value of 0 or 1 and an amount within the bet limits, it returns the
  pair the two words denote, 0 read as YES and 1 as NO.
\<close>

theorem decodePlaceBetTransaction_correct:
  "(take 10 transactionData \<noteq> PLACE_BET
      \<longrightarrow> decodePlaceBetTransaction transactionData = decode_failure NotPlaceBet)
   \<and> (take 10 transactionData = PLACE_BET \<and> length (drop 10 transactionData) \<noteq> 128
      \<longrightarrow> decodePlaceBetTransaction transactionData = decode_failure InvalidDataLength)
   \<and> (length choiceWord = 64 \<and> length amountWord = 64
       \<and> BigInt_hex choiceWord = Some c \<and> (c = 0 \<or> c = 1)
       \<and> BigInt_hex amountWord = Some a \<and> MIN_BET_WEI \<le> a \<and> a \<le> MAX_BET_WEI
      \<longrightarrow> decodePlaceBetTransaction (PLACE_BET @ choiceWord @ amountWord)
            = decode_success (if c = 0 then YES else NO) a)"
  by (auto simp add: decodePlaceBetTransaction_def Let_def PLACE_BET_length)

theorem decodePlaceBetTransaction_correct_witness:
  "take 10 ''0xa9059cbb'' \<noteq> PLACE_BET
   \<and> decodePlaceBetTransaction ''0xa9059cbb'' = decode_failure NotPlaceBet
   \<and> take 10 (PLACE_BET @ ''00'') = PLACE_BET \<and> length (drop 10 (PLACE_BET @ ''00'')) \<noteq> 128
   \<and> decodePlaceBetTransaction (PLACE_BET @ ''00'') = decode_failure InvalidDataLength
   \<and> length ''0000000000000000000000000000000000000000000000000000000000000000'' = 64
   \<and> length ''00000000000000000000000000000000000000000000000000000000004c4b40'' = 64
   \<and> BigInt_hex ''0000000000000000000000000000000000000000000000000000000000000000'' = Some 0
   \<and> BigInt_hex ''00000000000000000000000000000000000000000000000000000000004c4b40''
       = Some 5000000
   \<and> MIN_BET_WEI \<le> 5000000 \<and> 5000000 \<le> MAX_BET_WEI
   \<and> decodePlaceBetTransaction
        (PLACE_BET @ ''0000000000000000000000000000000000000000000000000000000000000000''
           @ ''00000000000000000000000000000000000000000000000000000000004c4b40'')
       = decode_success YES 5000000"
  using decodePlaceBetTransaction_correct [of "''0xa9059cbb''"]
    decodePlaceBetTransaction_correct [of "PLACE_BET @ ''00''"]
    decodePlaceBetTransaction_correct
      [of _ "''0000000000000000000000000000000000000000000000000000000000000000''"
          "''00000000000000000000000000000000000000000000000000000000004c4b40''" 0 5000000]
  by (simp add: BigInt_hex_zero_word BigInt_hex_min_word PLACE_BET_def MIN_BET_WEI_def
      MAX_BET_WEI_def)

section \<open>Properties of the unit conversion\<close>

lemma roundtrip_8000001: "toUSDTWei (formatUSDT 8000001) = 8000000"
  by code_simp

text \<open>
  Claim C6. The claim is that \<open>toUSDTWei (formatUSDT w) = w\<close> for every \<open>w\<close> from
  \<open>MIN_BET_WEI\<close> to \<open>MAX_BET_WEI\<close>. At \<open>w = 8000001\<close> the code returns
  \<open>8000000\<close>: the quotient \<open>8000001 / 10\<^sup>6\<close> rounds to a binary64 value whose product
  with \<open>10\<^sup>6\<close> rounds to \<open>8000000.999999999\<close>, and \<open>Math.floor\<close> drops the
  fraction.
\<close>

theorem toUSDTWei_formatUSDT_loses_unit:
  "MIN_BET_WEI \<le> 8000001 \<and> 8000001 \<le> MAX_BET_WEI
   \<and> toUSDTWei (formatUSDT 8000001) = 8000000"
  by (simp add: MIN_BET_WEI_def MAX_BET_WEI_def roundtrip_8000001)

theorem toUSDTWei_formatUSDT_loses_unit_witness:
  "toUSDTWei (formatUSDT 8000001) \<noteq> 8000001"
  using toUSDTWei_formatUSDT_loses_unit by simp


section \<open>Properties of the rule engine\<close>

lemma bootstrap_ceiling: "nmul MAX_BET (Finite 10) = Finite 50000"
  by (simp add: MAX_BET_def binary64_numeral)

text \<open>
  Claim C3, as stated, measures the wallet's exposure against the total pool after the
  bet. The code measures it against the total pool before the bet: with an exposure of
  10 and a pool of 95 the check reports a violation, although 10 does not exceed ten
  percent of \<open>95 + 10\<close>, neither in binary64 nor in exact arithmetic.
\<close>

theorem validatePoolCap_post_bet_counterexample:
  "validatePoolCap (Finite 0) (Finite 10) (Finite 95) (Finite 0) = [PoolCapExceeded]
   \<and> \<not> ngt (nadd (Finite 0) (Finite 10))
          (ndiv (nmul (nadd (nadd (Finite 95) (Finite 0)) (Finite 10)) POOL_CAP_PERCENT)
             (Finite 100))
   \<and> \<not> ((0::real) + 10 > 10 / 100 * (95 + 0 + 10))"
  using binary64_half_integer [of 19] binary64_half_integer [of 21]
  by (simp add: validatePoolCap_def POOL_CAP_PERCENT_def binary64_numeral)

text \<open>
  Claim C3, amended. The pool-concentration check reports \<open>POOL_CAP_EXCEEDED\<close>, and
  nothing else, exactly when the wallet's cumulative stake plus the new amount exceeds
  the bound. When the total pool before the bet (\<open>yesPool + noPool\<close>) is positive, the
  bound is that total times \<open>POOL_CAP_PERCENT\<close> divided by 100; otherwise it is
  \<open>MAX_BET * 10 = 50000\<close>. The sums, the product, the quotient and the comparisons
  are those of binary64 numbers.
\<close>

theorem validatePoolCap_pre_bet_total:
  "validatePoolCap walletTotalBets newBetAmount totalYesPool totalNoPool =
     (if ngt (nadd walletTotalBets newBetAmount)
           (if ngt (nadd totalYesPool totalNoPool) (Finite 0)
            then ndiv (nmul (nadd totalYesPool totalNoPool) POOL_CAP_PERCENT) (Finite 100)
            else Finite 50000)
      then [PoolCapExceeded] else [])"
  by (simp add: validatePoolCap_def Let_def bootstrap_ceiling)

theorem validatePoolCap_pre_bet_total_witness:
  "validatePoolCap (Finite 0) (Finite 10) (Finite 95) (Finite 0) = [PoolCapExceeded]
   \<and> validatePoolCap (Finite 0) (Finite 10) (Finite 0) (Finite 0) = []"
  using validatePoolCap_pre_bet_total [of "Finite 0" "Finite 10" "Finite 95" "Finite 0"]
    validatePoolCap_pre_bet_total [of "Finite 0" "Finite 10" "Finite 0" "Finite 0"]
    binary64_half_integer [of 19]
  by (simp add: POOL_CAP_PERCENT_def binary64_numeral)

lemma codes_validateWalletAddress:
  "set (map code (validateWalletAddress a)) = (if isValidAddress a then {} else {''INVALID_WALLET''})"
  by (auto simp add: validateWalletAddress_def isValidAddress_def)

lemma codes_validateBetChoice:
  "set (map code (validateBetChoice c)) = (if c = None then {''INVALID_CHOICE''} else {})"
  by (cases c) (simp_all add: validateBetChoice_def)

lemma codes_validateBetAmount:
  "set (map code (validateBetAmount x)) =
     (if \<not> isFinite x \<or> nle x (Finite 0) \<or> \<not> Number_isInteger x then {''INVALID_AMOUNT''}
      else (if nlt x MIN_BET then {''BET_MIN_EXCEEDED''} else {})
           \<union> (if ngt x MAX_BET then {''BET_MAX_EXCEEDED''} else {}))"
  by (simp add: validateBetAmount_def)

lemma codes_validateMarketActive:
  "set (map code (validateMarketActive st e now)) =
     (if st \<noteq> ''ACTIVE'' \<or> ngt (timeValue now) (nmul e (Finite 1000))
      then {''MARKET_NOT_ACTIVE''} else {})"
  by (cases "st = ''ACTIVE''"; cases "ngt (timeValue now) (nmul e (Finite 1000))")
     (simp_all add: validateMarketActive_def Let_def del: timeValue_simp)

lemma codes_validateWalletNotFlagged:
  "set (map code (validateWalletNotFlagged f)) = (if f then {''WALLET_FLAGGED''} else {})"
  by (simp add: validateWalletNotFlagged_def)

lemma codes_validateCooldown:
  "set (map code (validateCooldown l now)) =
     (if (\<exists>t. l = Some t \<and> t \<noteq> 0 \<and> now - t < COOLDOWN_SECONDS * 1000)
      then {''COOLDOWN_NOT_MET''} else {})"
proof (cases l)
  case None
  then show ?thesis by (simp add: validateCooldown_def)
next
  case (Some t)
  then show ?thesis
    by (cases "t = 0"; cases "now - t < COOLDOWN_SECONDS * 1000")
       (simp_all add: validateCooldown_def Let_def)
qed

lemma codes_validateBetCount:
  "set (map code (validateBetCount n)) =
     (if n \<ge> MAX_BETS_PER_WALLET then {''BET_COUNT_EXCEEDED''} else {})"
  by (simp add: validateBetCount_def)

lemma codes_validatePoolCap:
  "set (map code (validatePoolCap w a y n))
     = (if validatePoolCap w a y n \<noteq> [] then {''POOL_CAP_EXCEEDED''} else {})"
  by (simp add: validatePoolCap_def Let_def)

lemma codes_validateBetVelocity:
  "set (map code (validateBetVelocity ts now)) =
     (if int (length (filter (\<lambda>t. t \<ge> now - 3600000) ts)) \<ge> MAX_BETS_IN_1_HOUR
      then {''VELOCITY_EXCEEDED''} else {})"
  by (simp add: validateBetVelocity_def Let_def)

lemma preliminary_empty:
  "(validateWalletAddress (bi_walletAddress inp)
     @ validateBetChoice (bi_choice inp)
     @ validateBetAmount (bi_amount inp)
     @ validateMarketActive (bi_marketStatus inp) (bi_marketEndTime inp) now
     @ validateWalletNotFlagged (bi_isFlagged inp) = []) = preliminaryChecksPass inp now"
  by (auto simp add: preliminaryChecksPass_def validateWalletAddress_def validateBetChoice_def
      validateBetAmount_def validateMarketActive_def validateWalletNotFlagged_def Let_def
      isValidAddress_def simp del: timeValue_simp split: option.splits)

lemma errorCodes_comprehensive:
  "errorCodes (validateBetComprehensive inp now) =
     set (map code (validateWalletAddress (bi_walletAddress inp)))
     \<union> set (map code (validateBetChoice (bi_choice inp)))
     \<union> set (map code (validateBetAmount (bi_amount inp)))
     \<union> set (map code (validateMarketActive (bi_marketStatus inp) (bi_marketEndTime inp) now))
     \<union> set (map code (validateWalletNotFlagged (bi_isFlagged inp)))
     \<union> (if preliminaryChecksPass inp now
        then set (map code (validateCooldown (bi_lastBetTimestamp inp) now))
             \<union> set (map code (validateBetCount (bi_currentBetCount inp)))
             \<union> set (map code (validatePoolCap (bi_walletTotalBets inp) (bi_amount inp)
                      (bi_totalYesPool inp) (bi_totalNoPool inp)))
             \<union> set (map code (validateBetVelocity (bi_recentBetTimestamps inp) now))
        else {})"
  unfolding errorCodes_def validateBetComprehensive_def Let_def
  using preliminary_empty [of inp now]
  by (cases "preliminaryChecksPass inp now") auto

lemma vr_errors_comprehensive:
  "vr_errors (validateBetComprehensive inp currentTime) =
     (let errors0 =
            validateWalletAddress (bi_walletAddress inp)
            @ validateBetChoice (bi_choice inp)
            @ validateBetAmount (bi_amount inp)
            @ validateMarketActive (bi_marketStatus inp) (bi_marketEndTime inp) currentTime
            @ validateWalletNotFlagged (bi_isFlagged inp)
      in if errors0 = []
         then validateCooldown (bi_lastBetTimestamp inp) currentTime
              @ validateBetCount (bi_currentBetCount inp)
              @ validatePoolCap (bi_walletTotalBets inp) (bi_amount inp)
                  (bi_totalYesPool inp) (bi_totalNoPool inp)
              @ validateBetVelocity (bi_recentBetTimestamps inp) currentTime
         else errors0)"
  by (simp add: validateBetComprehensive_def Let_def)

lemma vr_isValid_comprehensive:
  "vr_isValid (validateBetComprehensive inp currentTime)
     = (vr_errors (validateBetComprehensive inp currentTime) = [])"
  by (simp add: validateBetComprehensive_def Let_def)

lemma isValidAddress_exampleWallet: "isValidAddress exampleWallet"
  by (simp add: isValidAddress_def exampleWallet_def hexDigit_def)

text \<open>
  Claim C4, as stated, has every violated check in the list. The code runs the cooldown,
  bet-count, pool-cap and velocity checks only when the checks before them found no
  error: for a flagged wallet that already holds the maximal number of bets the list is
  the wallet flag alone, and the violated bet-count cap is not reported.
\<close>

theorem validateBetComprehensive_truncates_counterexample:
  "vr_errors (validateBetComprehensive flaggedAtCap 1000) = [WalletFlagged]
   \<and> validateBetCount (bi_currentBetCount flaggedAtCap) = [BetCountExceeded]"
  using isValidAddress_exampleWallet
  by (simp add: vr_errors_comprehensive flaggedAtCap_def validateWalletAddress_def
      validateBetChoice_def validateBetAmount_def MIN_BET_def MAX_BET_def
      validateMarketActive_def validateWalletNotFlagged_def validateBetCount_def
      MAX_BETS_PER_WALLET_def exampleWallet_def binary64_numeral)

text \<open>
  Claim C4, amended. The returned list holds the code of every violated check among
  wallet address, choice, amount, market liveness and wallet flag, all of them together.
  The codes of the cooldown, bet-count, pool-concentration and velocity checks are in the
  list exactly when the check is violated and none of the former checks is; then all
  violated ones of these four are listed together. The result is valid exactly when the
  list is empty. The tests on the amount and on the end time are those of binary64
  numbers; the end time in milliseconds is the binary64 product of the end time and 1000.
\<close>

theorem validateBetComprehensive_gated:
  "(''INVALID_WALLET'' \<in> errorCodes (validateBetComprehensive inp now)
      \<longleftrightarrow> \<not> isValidAddress (bi_walletAddress inp))
   \<and> (''INVALID_CHOICE'' \<in> errorCodes (validateBetComprehensive inp now)
      \<longleftrightarrow> bi_choice inp = None)
   \<and> (''INVALID_AMOUNT'' \<in> errorCodes (validateBetComprehensive inp now)
      \<longleftrightarrow> \<not> isFinite (bi_amount inp) \<or> nle (bi_amount inp) (Finite 0)
          \<or> \<not> Number_isInteger (bi_amount inp))
   \<and> (''BET_MIN_EXCEEDED'' \<in> errorCodes (validateBetComprehensive inp now)
      \<longleftrightarrow> isFinite (bi_amount inp) \<and> \<not> nle (bi_amount inp) (Finite 0)
          \<and> Number_isInteger (bi_amount inp) \<and> nlt (bi_amount inp) MIN_BET)
   \<and> (''BET_MAX_EXCEEDED'' \<in> errorCodes (validateBetComprehensive inp now)
      \<longleftrightarrow> isFinite (bi_amount inp) \<and> \<not> nle (bi_amount inp) (Finite 0)
          \<and> Number_isInteger (bi_amount inp) \<and> ngt (bi_amount inp) MAX_BET)
   \<and> (''MARKET_NOT_ACTIVE'' \<in> errorCodes (validateBetComprehensive inp now)
      \<longleftrightarrow> bi_marketStatus inp \<noteq> ''ACTIVE''
          \<or> ngt (timeValue now) (nmul (bi_marketEndTime inp) (Finite 1000)))
   \<and> (''WALLET_FLAGGED'' \<in> errorCodes (validateBetComprehensive inp now)
      \<longleftrightarrow> bi_isFlagged inp)
   \<and> (''COOLDOWN_NOT_MET'' \<in> errorCodes (validateBetComprehensive inp now)
      \<longleftrightarrow> preliminaryChecksPass inp now
          \<and> (\<exists>t. bi_lastBetTimestamp inp = Some t \<and> t \<noteq> 0
                 \<and> now - t < COOLDOWN_SECONDS * 1000))
   \<and> (''BET_COUNT_EXCEEDED'' \<in> errorCodes (validateBetComprehensive inp now)
      \<longleftrightarrow> preliminaryChecksPass inp now
          \<and> bi_currentBetCount inp \<ge> MAX_BETS_PER_WALLET)
   \<and> (''POOL_CAP_EXCEEDED'' \<in> errorCodes (validateBetComprehensive inp now)
      \<longleftrightarrow> preliminaryChecksPass inp now
          \<and> validatePoolCap (bi_walletTotalBets inp) (bi_amount inp)
               (bi_totalYesPool inp) (bi_totalNoPool inp) \<noteq> [])
   \<and> (''VELOCITY_EXCEEDED'' \<in> errorCodes (validateBetComprehensive inp now)
      \<longleftrightarrow> preliminaryChecksPass inp now
          \<and> int (length (filter (\<lambda>t. t \<ge> now - 3600000) (bi_recentBetTimestamps inp)))
                \<ge> MAX_BETS_IN_1_HOUR)
   \<and> (vr_isValid (validateBetComprehensive inp now)
      \<longleftrightarrow> errorCodes (validateBetComprehensive inp now) = {})"
proof -
  let ?codes = "errorCodes (validateBetComprehensive inp now)"
  note pre = codes_validateWalletAddress codes_validateBetChoice codes_validateBetAmount
    codes_validateMarketActive codes_validateWalletNotFlagged
  note gated = codes_validateCooldown codes_validateBetCount codes_validatePoolCap
    codes_validateBetVelocity
  have c1: "''INVALID_WALLET'' \<in> ?codes \<longleftrightarrow> \<not> isValidAddress (bi_walletAddress inp)"
    unfolding errorCodes_comprehensive pre gated by simp
  have c2: "''INVALID_CHOICE'' \<in> ?codes \<longleftrightarrow> bi_choice inp = None"
    unfolding errorCodes_comprehensive pre gated by simp
  have c3: "''INVALID_AMOUNT'' \<in> ?codes
      \<longleftrightarrow> \<not> isFinite (bi_amount inp) \<or> nle (bi_amount inp) (Finite 0)
          \<or> \<not> Number_isInteger (bi_amount inp)"
    unfolding errorCodes_comprehensive pre gated by simp
  have c4: "''BET_MIN_EXCEEDED'' \<in> ?codes
      \<longleftrightarrow> isFinite (bi_amount inp) \<and> \<not> nle (bi_amount inp) (Finite 0)
          \<and> Number_isInteger (bi_amount inp) \<and> nlt (bi_amount inp) MIN_BET"
    unfolding errorCodes_comprehensive pre gated by simp
  have c5: "''BET_MAX_EXCEEDED'' \<in> ?codes
      \<longleftrightarrow> isFinite (bi_amount inp) \<and> \<not> nle (bi_amount inp) (Finite 0)
          \<and> Number_isInteger (bi_amount inp) \<and> ngt (bi_amount inp) MAX_BET"
    unfolding errorCodes_comprehensive pre gated by simp
  have c6: "''MARKET_NOT_ACTIVE'' \<in> ?codes
      \<longleftrightarrow> bi_marketStatus inp \<noteq> ''ACTIVE''
          \<or> ngt (timeValue now) (nmul (bi_marketEndTime inp) (Finite 1000))"
    unfolding errorCodes_comprehensive pre gated by (simp del: timeValue_simp)
  have c7: "''WALLET_FLAGGED'' \<in> ?codes \<longleftrightarrow> bi_isFlagged inp"
    unfolding errorCodes_comprehensive pre gated by simp
  have c8: "''COOLDOWN_NOT_MET'' \<in> ?codes
      \<longleftrightarrow> preliminaryChecksPass inp now
          \<and> (\<exists>t. bi_lastBetTimestamp inp = Some t \<and> t \<noteq> 0
                 \<and> now - t < COOLDOWN_SECONDS * 1000)"
    unfolding errorCodes_comprehensive pre gated by simp
  have c9: "''BET_COUNT_EXCEEDED'' \<in> ?codes
      \<longleftrightarrow> preliminaryChecksPass inp now \<and> bi_currentBetCount inp \<ge> MAX_BETS_PER_WALLET"
    unfolding errorCodes_comprehensive pre gated by simp
  have c10: "''POOL_CAP_EXCEEDED'' \<in> ?codes
      \<longleftrightarrow> preliminaryChecksPass inp now
          \<and> validatePoolCap (bi_walletTotalBets inp) (bi_amount inp)
               (bi_totalYesPool inp) (bi_totalNoPool inp) \<noteq> []"
    unfolding errorCodes_comprehensive pre gated by simp
  have c11: "''VELOCITY_EXCEEDED'' \<in> ?codes
      \<longleftrightarrow> preliminaryChecksPass inp now
          \<and> int (length (filter (\<lambda>t. t \<ge> now - 3600000) (bi_recentBetTimestamps inp)))
                \<ge> MAX_BETS_IN_1_HOUR"
    unfolding errorCodes_comprehensive pre gated by simp
  have valid: "vr_isValid (validateBetComprehensive inp now) \<longleftrightarrow> ?codes = {}"
    by (simp add: validateBetComprehensive_def errorCodes_def Let_def)
  from c1 c2 c3 c4 c5 c6 c7 c8 c9 c10 c11 valid show ?thesis by blast
qed

theorem validateBetComprehensive_gated_witness:
  "''WALLET_FLAGGED'' \<in> errorCodes (validateBetComprehensive flaggedAtCap 1000)
   \<and> ''BET_COUNT_EXCEEDED'' \<notin> errorCodes (validateBetComprehensive flaggedAtCap 1000)
   \<and> ''BET_COUNT_EXCEEDED''
        \<in> errorCodes (validateBetComprehensive (flaggedAtCap\<lparr>bi_isFlagged := False\<rparr>) 1000)"
  using validateBetComprehensive_gated [of flaggedAtCap 1000]
    validateBetComprehensive_gated [of "flaggedAtCap\<lparr>bi_isFlagged := False\<rparr>" 1000]
    isValidAddress_exampleWallet
  by (simp add: preliminaryChecksPass_def flaggedAtCap_def MIN_BET_def MAX_BET_def
      MAX_BETS_PER_WALLET_def binary64_numeral)


section \<open>Properties of the live statistics stream\<close>

text \<open>
  Claim C7. A stream is opened on an ACTIVE market with empty pools; the market is then
  closed. The first tick after that sends a \<open>POOL_UPDATE\<close> and a \<open>MARKET_UPDATE\<close> and
  leaves the timer's variables as they were: the status is compared with the row read
  when the stream was opened and is never stored. The next tick sees the same pools and
  the same status as the tick before it, and sends the two frames again, not a
  \<open>HEARTBEAT\<close>.
\<close>

theorem pollTick_repeats_after_status_change:
  "pollTick (\<lambda>op. False) 2000 closedStore firstPoller
     = ([POOL_UPDATE 0 0 0 0 0 0, MARKET_UPDATE ''CLOSED'' None 98998 False], Some firstPoller)
   \<and> pollTick (\<lambda>op. False) 4000 closedStore firstPoller
     = ([POOL_UPDATE 0 0 0 0 0 0, MARKET_UPDATE ''CLOSED'' None 98996 False], Some firstPoller)"
  by (simp add: pollTick_def closedStore_def emptyStore_def firstPoller_def activeMarket_def
      findMarket_def calculatePoolPercentages_def Let_def)

theorem pollTick_repeats_after_status_change_witness:
  "fst (pollTick (\<lambda>op. False) 4000 closedStore firstPoller) \<noteq> [HEARTBEAT]"
  using pollTick_repeats_after_status_change by simp

lemma isValidMarketId_m1: "isValidMarketId ''m1''"
  by (simp add: isValidMarketId_def)

lemma findMarket_m1: "findMarket emptyStore ''m1'' = Some activeMarket"
  by (simp add: findMarket_def emptyStore_def activeMarket_def)

lemma oneSubscriber_eval:
  "oneSubscriber =
     \<lparr>activeConnections =
        [(''c1'', \<lparr>ac_marketId = ''m1'', ac_walletAddress = None, ac_connectedAt = 1000,
                  ac_lastHeartbeat = 1000\<rparr>)],
      pollers = [firstPoller]\<rparr>"
  by (simp add: oneSubscriber_def GET_def isValidMarketId_m1 findMarket_m1 falsy_def
      registerConnection_def emptyHub_def firstPoller_def activeMarket_def Let_def)

text \<open>
  Claim C9, as stated, has one polling loop per market. After two accepted requests for
  the same market the hub holds two subscribers of that market and two polling loops.
\<close>

theorem one_loop_per_market_counterexample:
  "subscribers twoSubscribers ''m1'' = 2 \<and> pollingLoops twoSubscribers ''m1'' = 2"
  by (simp add: twoSubscribers_def oneSubscriber_eval GET_def isValidMarketId_m1 findMarket_m1
      falsy_def registerConnection_def firstPoller_def activeMarket_def Let_def
      subscribers_def pollingLoops_def)

lemma update_fresh: "map_of al k = None \<Longrightarrow> AList.update k v al = al @ [(k, v)]"
  by (induction al) (auto split: if_splits)

lemma GET_accepted:
  assumes "GET isAddress lookupFails now connId s hub marketIdParam walletParam = (EventStream, hub')"
  shows "\<exists>marketId market. marketIdParam = Some marketId \<and> findMarket s marketId = Some market
           \<and> hub' = (registerConnection now connId marketId
                        (if falsy walletParam then None else walletParam) hub)
                    \<lparr>pollers := pollers hub @
                       [\<lparr>pl_connId = connId, pl_marketId = marketId, pl_market = market,
                         pl_prevYesPool = mk_yesPool market, pl_prevNoPool = mk_noPool market,
                         pl_isStreamClosed = False\<rparr>]\<rparr>"
  using assms
  by (auto simp add: GET_def Let_def registerConnection_def split: option.splits if_splits)

text \<open>
  Claim C9, amended. Every accepted stream request starts a polling loop of its own:
  whatever loops the market already has, it has one more afterwards, and the loops of
  other markets are unchanged; with a fresh connection identifier the market's
  subscribers grow by one as well. The number of loops follows the number of
  connections, not the number of markets. Closing the connection stops that
  connection's loop only.
\<close>

theorem GET_starts_own_polling_loop:
  assumes "GET isAddress lookupFails now connId s hub (Some marketId) walletParam
             = (EventStream, hub')"
  shows "pollingLoops hub' m = pollingLoops hub m + (if m = marketId then 1 else 0)
         \<and> (map_of (activeConnections hub) connId = None
              \<longrightarrow> subscribers hub' m = subscribers hub m + (if m = marketId then 1 else 0))
         \<and> pollers (abort connId hub') = filter (\<lambda>p. pl_connId p \<noteq> connId) (pollers hub)"
proof -
  from GET_accepted [OF assms] obtain market where
    hub': "hub' = (registerConnection now connId marketId
                        (if falsy walletParam then None else walletParam) hub)
                    \<lparr>pollers := pollers hub @
                       [\<lparr>pl_connId = connId, pl_marketId = marketId, pl_market = market,
                         pl_prevYesPool = mk_yesPool market, pl_prevNoPool = mk_noPool market,
                         pl_isStreamClosed = False\<rparr>]\<rparr>"
    by auto
  have loops: "pollingLoops hub' m = pollingLoops hub m + (if m = marketId then 1 else 0)"
    by (simp add: hub' pollingLoops_def registerConnection_def)
  have subs: "subscribers hub' m = subscribers hub m + (if m = marketId then 1 else 0)"
    if "map_of (activeConnections hub) connId = None"
    by (simp add: hub' subscribers_def registerConnection_def update_fresh [OF that])
  have ab: "pollers (abort connId hub') = filter (\<lambda>p. pl_connId p \<noteq> connId) (pollers hub)"
    by (simp add: hub' abort_def unregisterConnection_def registerConnection_def)
  from loops subs ab show ?thesis by blast
qed

theorem GET_starts_own_polling_loop_witness:
  "GET isValidAddress False 1001 ''c2'' emptyStore oneSubscriber (Some ''m1'') None
     = (EventStream, twoSubscribers)
   \<and> pollingLoops oneSubscriber ''m1'' = 1
   \<and> pollingLoops twoSubscribers ''m1'' = 2
   \<and> map_of (activeConnections oneSubscriber) ''c2'' = None
   \<and> subscribers twoSubscribers ''m1'' = subscribers oneSubscriber ''m1'' + 1"
proof -
  have get: "GET isValidAddress False 1001 ''c2'' emptyStore oneSubscriber (Some ''m1'') None
               = (EventStream, twoSubscribers)"
    by (simp add: twoSubscribers_def GET_def isValidMarketId_m1 findMarket_m1 falsy_def Let_def)
  have one: "pollingLoops oneSubscriber ''m1'' = 1"
    by (simp add: oneSubscriber_eval pollingLoops_def firstPoller_def)
  have fresh: "map_of (activeConnections oneSubscriber) ''c2'' = None"
    by (simp add: oneSubscriber_eval)
  from GET_starts_own_polling_loop [OF get, of "''m1''"] one fresh get show ?thesis
    by simp
qed

section \<open>Properties of the transaction verifier\<close>

lemma decode_valid_cases:
  assumes "dec_isValid (decodePlaceBetTransaction d)"
  shows "\<exists>c a. decodePlaceBetTransaction d = decode_success c a
           \<and> MIN_BET_WEI \<le> a \<and> a \<le> MAX_BET_WEI"
  using assms
  by (force simp add: decodePlaceBetTransaction_def Let_def not_less split: if_splits option.splits)

lemma decode_success_bounds:
  assumes "decodePlaceBetTransaction d = decode_success c a"
  shows "MIN_BET_WEI \<le> a \<and> a \<le> MAX_BET_WEI"
proof -
  from assms have "dec_isValid (decodePlaceBetTransaction d)" by simp
  from decode_valid_cases [OF this] assms show ?thesis
    by (auto simp add: decode_success_def)
qed

lemma validateDecodedBet_success:
  "validateDecodedBet (decode_success c a) u x =
     (if a = 0 then Returned [CouldNotBeDecoded]
      else
        (case BigInt_number (nmul x (Finite (10 ^ USDT_DECIMALS))) of
           Thrown \<Rightarrow> Thrown
         | Returned e \<Rightarrow>
             Returned
               ((if c \<noteq> u then [ChoiceMismatch c u] else [])
                @ (if \<bar>a - e\<bar> > 1 then [AmountMismatch a e] else []))))"
  by (simp add: validateDecodedBet_def Let_def abs_if split: outcome.splits)

lemma verification_failure_simps [simp]:
  "vt_isValid (verification_failure st bn errs) = False"
  "vt_errors (verification_failure st bn errs) = errs"
  by (simp_all add: verification_failure_def)

lemma details_blockNumber:
  assumes "getTransactionDetails ledger h = Some d" and "td_blockNumber d = Some b"
  shows "\<exists>cb. getBlockNumber ledger = Returned cb"
  using assms
  by (auto simp add: getTransactionDetails_def split: outcome.splits option.splits)

lemma details_data:
  assumes "getTransactionDetails ledger h = Some d"
  shows "\<exists>t. getTransaction ledger h = Returned t \<and> td_data d = tx_input t"
  using assms
  by (auto simp add: getTransactionDetails_def split: outcome.splits option.splits)

lemma onChainBetE:
  assumes "onChainBet ledger h c a"
  obtains d where "oc_isValid (validateTransactionOnChain ledger h)"
    and "getTransactionDetails ledger h = Some d" and "td_data d \<noteq> []"
    and "validateTransactionReceipt ledger (oc_receipt (validateTransactionOnChain ledger h))
           (td_gas d) = []"
    and "decodePlaceBetTransaction (td_data d) = decode_success c a"
  using assms by (auto simp add: onChainBet_def split: option.splits)

lemma orUndefined_Some: "orUndefined x = Some b \<Longrightarrow> x = Some b"
  by (auto simp add: orUndefined_def split: option.splits if_splits)

lemma vbt_onChainBet:
  assumes "onChainBet ledger h c a"
    and "validateDecodedBet (decode_success c a) u x = Returned errs"
  shows "vt_isValid (validateBetTransaction ledger h u x) = (errs = [])
         \<and> vt_errors (validateBetTransaction ledger h u x) = errs
         \<and> vt_choice (validateBetTransaction ledger h u x) = Some c
         \<and> vt_amount (validateBetTransaction ledger h u x)
             = Some (ndiv (Number a) (Finite (10 ^ USDT_DECIMALS)))"
proof -
  from assms(1) obtain d where oc: "oc_isValid (validateTransactionOnChain ledger h)"
    and d: "getTransactionDetails ledger h = Some d" and data: "td_data d \<noteq> []"
    and rv: "validateTransactionReceipt ledger
               (oc_receipt (validateTransactionOnChain ledger h)) (td_gas d) = []"
    and dec: "decodePlaceBetTransaction (td_data d) = decode_success c a"
    by (rule onChainBetE)
  have nb: "getBlockNumber ledger \<noteq> Thrown" if "orUndefined (td_blockNumber d) = Some b" for b
    using details_blockNumber [OF d orUndefined_Some [OF that]] by auto
  show ?thesis
    unfolding validateBetTransaction_def
    using nb
    by (auto simp add: oc d data rv dec assms(2) Let_def
        split: prod.splits option.splits outcome.splits)
qed

lemma vbt_onChainBet_thrown:
  assumes "onChainBet ledger h c a"
    and "validateDecodedBet (decode_success c a) u x = Thrown"
  shows "\<not> vt_isValid (validateBetTransaction ledger h u x)
         \<and> vt_errors (validateBetTransaction ledger h u x) = [UnexpectedError]"
proof -
  from assms(1) obtain d where oc: "oc_isValid (validateTransactionOnChain ledger h)"
    and d: "getTransactionDetails ledger h = Some d" and data: "td_data d \<noteq> []"
    and rv: "validateTransactionReceipt ledger
               (oc_receipt (validateTransactionOnChain ledger h)) (td_gas d) = []"
    and dec: "decodePlaceBetTransaction (td_data d) = decode_success c a"
    by (rule onChainBetE)
  show ?thesis
    unfolding validateBetTransaction_def
    by (simp add: oc d data rv dec assms(2) Let_def)
qed

lemma vbt_valid_onChainBet:
  assumes "vt_isValid (validateBetTransaction ledger h u x)"
  shows "\<exists>c a. onChainBet ledger h c a"
proof -
  from assms have oc: "oc_isValid (validateTransactionOnChain ledger h)"
    unfolding validateBetTransaction_def by (auto simp add: Let_def split: if_splits)
  from assms oc obtain d where d: "getTransactionDetails ledger h = Some d"
    unfolding validateBetTransaction_def by (cases "getTransactionDetails ledger h") (auto simp add: Let_def)
  from assms oc d have data: "td_data d \<noteq> []"
    unfolding validateBetTransaction_def by (auto simp add: Let_def split: if_splits)
  from assms oc d data have rv: "validateTransactionReceipt ledger
               (oc_receipt (validateTransactionOnChain ledger h)) (td_gas d) = []"
    unfolding validateBetTransaction_def by (auto simp add: Let_def split: if_splits)
  from assms oc d data rv have "dec_isValid (decodePlaceBetTransaction (td_data d))"
    unfolding validateBetTransaction_def by (auto simp add: Let_def split: if_splits)
  from decode_valid_cases [OF this] obtain c a where
    "decodePlaceBetTransaction (td_data d) = decode_success c a" by blast
  with oc d data rv have "onChainBet ledger h c a"
    by (simp add: onChainBet_def)
  then show ?thesis by blast
qed

lemma onChainBet_unique:
  assumes "onChainBet ledger h c a" and "onChainBet ledger h c' a'"
  shows "c' = c \<and> a' = a"
  using assms
  by (auto simp add: onChainBet_def decode_success_def split: option.splits)

section \<open>Properties of the confirmation endpoint\<close>

lemma response_success_simps [simp]:
  "rs_success (errorResponse m c st) = False" "rs_success internalError = False"
  "rs_success (successResponse b) = True"
  by (simp_all add: errorResponse_def internalError_def successResponse_def)

lemma ruleChecks_Inl:
  assumes "ruleChecks env s body market choice = Inl r"
  shows "\<not> rs_success r"
  using assms by (auto simp add: ruleChecks_def Let_def split: if_splits)

lemma ruleChecks_Inr:
  assumes "ruleChecks env s body market choice = Inr ck"
  shows "ck_body ck = body \<and> ck_market ck = market \<and> ck_choice ck = choice
         \<and> ck_userBetCount ck
             = getUserBetCount (env_fails env) s (rq_walletAddress body) (rq_marketId body)
         \<and> vr_isValid (validateBetComprehensive (ruleInput env s body market choice) (env_now env))
         \<and> vr_isValid (validateBetForContract (ruleInput env s body market choice) (env_now env))"
  using assms by (auto simp add: ruleChecks_def Let_def ruleInput_def split: if_splits)

lemma confirmChecks_Inl:
  assumes "confirmChecks env s request = Inl r"
  shows "\<not> rs_success r"
  using assms ruleChecks_Inl
  by (auto simp add: confirmChecks_def Let_def split: option.splits if_splits)

lemma confirmChecks_Inr:
  assumes "confirmChecks env s request = Inr ck"
  shows "request = Some (ck_body ck)
         \<and> rq_choice (ck_body ck) = Some (ck_choice ck)
         \<and> validateRequest (env_isAddress env) (ck_body ck) = None
         \<and> getMarketById (env_fails env) GetMarket s (rq_marketId (ck_body ck)) = Some (ck_market ck)
         \<and> mk_status (ck_market ck) = ''ACTIVE''
         \<and> env_now env \<le> mk_endDate (ck_market ck)
         \<and> vt_isValid (validateBetTransaction (env_ledger env) (rq_txHash (ck_body ck))
                          (ck_choice ck) (rq_amount (ck_body ck)))
         \<and> \<not> claimMismatch (validateBetTransaction (env_ledger env) (rq_txHash (ck_body ck))
                               (ck_choice ck) (rq_amount (ck_body ck)))
               (ck_choice ck) (rq_amount (ck_body ck))
         \<and> ruleChecks env s (ck_body ck) (ck_market ck) (ck_choice ck) = Inr ck"
proof -
  from assms obtain body where req: "request = Some body"
    by (cases request) (auto simp add: confirmChecks_def)
  from assms req obtain choice where ch: "rq_choice body = Some choice"
    and vr: "validateRequest (env_isAddress env) body = None"
    by (cases "validateRequest (env_isAddress env) body"; cases "rq_choice body")
       (auto simp add: confirmChecks_def)
  from assms req ch vr obtain market where
    mk: "getMarketById (env_fails env) GetMarket s (rq_marketId body) = Some market"
    by (cases "getMarketById (env_fails env) GetMarket s (rq_marketId body)")
       (auto simp add: confirmChecks_def)
  from assms have rest: "mk_status market = ''ACTIVE'' \<and> env_now env \<le> mk_endDate market
      \<and> vt_isValid (validateBetTransaction (env_ledger env) (rq_txHash body) choice (rq_amount body))
      \<and> \<not> claimMismatch (validateBetTransaction (env_ledger env) (rq_txHash body) choice
                            (rq_amount body)) choice (rq_amount body)
      \<and> ruleChecks env s body market choice = Inr ck"
    by (simp add: confirmChecks_def req ch vr mk Let_def split: if_splits)
  with ruleChecks_Inr [of env s body market choice ck] req ch vr mk show ?thesis
    by simp
qed

lemma POST_Inl:
  assumes "confirmChecks env s request = Inl r"
  shows "POST env s request = (r, s)"
  using assms by (simp add: POST_def)

lemma POST_Inr:
  assumes "confirmChecks env s request = Inr ck"
  shows "POST env s request =
           settle env s (ck_market ck) (rq_txHash (ck_body ck)) (rq_marketId (ck_body ck))
             (ck_choice ck) (rq_amount (ck_body ck)) (rq_walletAddress (ck_body ck))
             (ck_userBetCount ck)"
  using assms by (simp add: POST_def)

lemma POST_rejected:
  assumes "\<And>ck. confirmChecks env s request \<noteq> Inr ck"
  shows "\<not> rs_success (fst (POST env s request)) \<and> snd (POST env s request) = s"
proof (cases "confirmChecks env s request")
  case (Inl r)
  with confirmChecks_Inl [OF Inl] show ?thesis by (simp add: POST_def)
next
  case (Inr ck)
  with assms show ?thesis by blast
qed

lemma settle_taken:
  assumes "txHashTaken env s txHash"
  shows "settle env s market txHash marketId choice amount walletAddress n = (internalError, s)"
  using assms by (simp add: settle_def split: outcome.splits)

lemma POST_taken:
  assumes "txHashTaken env s (rq_txHash body)"
  shows "\<not> rs_success (fst (POST env s (Some body))) \<and> snd (POST env s (Some body)) = s"
proof (cases "confirmChecks env s (Some body)")
  case (Inl r)
  with confirmChecks_Inl [OF Inl] show ?thesis by (simp add: POST_def)
next
  case (Inr ck)
  from confirmChecks_Inr [OF Inr] have "ck_body ck = body" by simp
  with Inr assms show ?thesis by (simp add: POST_def settle_taken)
qed

lemma POST_unverified:
  assumes "rq_choice body = Some u"
    and "\<not> vt_isValid (validateBetTransaction (env_ledger env) (rq_txHash body) u (rq_amount body))"
  shows "\<not> rs_success (fst (POST env s (Some body))) \<and> snd (POST env s (Some body)) = s"
proof (rule POST_rejected)
  fix ck
  show "confirmChecks env s (Some body) \<noteq> Inr ck"
  proof
    assume "confirmChecks env s (Some body) = Inr ck"
    from confirmChecks_Inr [OF this] assms show False by auto
  qed
qed

text \<open>A request that passes the rule engine claims a whole amount from 5 to 5000 USDT,
  whose conversion to the smallest unit is exact.\<close>

lemma validateBetAmount_empty:
  assumes "validateBetAmount amount = []"
  shows "\<exists>k. amount = Finite (real_of_int k) \<and> 5 \<le> k \<and> k \<le> 5000"
proof (cases amount)
  case (Finite x)
  with assms have x: "isInteger x" "\<not> x < 5" "\<not> x > 5000"
    by (simp_all add: validateBetAmount_def MIN_BET_def MAX_BET_def split: if_splits)
  then have "x = real_of_int \<lfloor>x\<rfloor>" "5 \<le> \<lfloor>x\<rfloor>" "\<lfloor>x\<rfloor> \<le> 5000"
    by (simp_all add: isInteger_floor le_floor_iff floor_le_iff)
  with Finite show ?thesis by blast
qed (use assms in \<open>simp_all add: validateBetAmount_def\<close>)

lemma betAmountWei_whole:
  assumes "0 \<le> k" and "k \<le> 5000"
  shows "betAmountWei (Finite (real_of_int k)) = Returned (k * 1000000)"
proof -
  have small: "\<bar>k * 1000000\<bar> < 2 ^ 53" using assms by simp
  have e: "real_of_int k * 10 ^ USDT_DECIMALS = real_of_int (k * 1000000)"
    by (simp add: USDT_DECIMALS_def)
  have "nmul (Finite (real_of_int k)) (Finite (10 ^ USDT_DECIMALS))
          = Finite (real_of_int (k * 1000000))"
    unfolding nmul.simps e using small by (rule binary64_of_int)
  then show ?thesis
    unfolding betAmountWei_def
    by (simp only: Math_floor.simps BigInt_number.simps floor_of_int isInteger_of_int if_True)
qed

lemma comprehensive_valid_amount:
  assumes "vr_isValid (validateBetComprehensive inp now)"
  shows "validateBetAmount (bi_amount inp) = []"
  using assms unfolding vr_isValid_comprehensive vr_errors_comprehensive Let_def
  by (auto split: if_splits)

lemma confirmChecks_amount:
  assumes "confirmChecks env s request = Inr ck"
  shows "\<exists>k. rq_amount (ck_body ck) = Finite (real_of_int k) \<and> 5 \<le> k \<and> k \<le> 5000
             \<and> betAmountWei (rq_amount (ck_body ck)) = Returned (k * 1000000)"
proof -
  from confirmChecks_Inr [OF assms]
  have "ruleChecks env s (ck_body ck) (ck_market ck) (ck_choice ck) = Inr ck" by simp
  from ruleChecks_Inr [OF this]
  have "vr_isValid (validateBetComprehensive
          (ruleInput env s (ck_body ck) (ck_market ck) (ck_choice ck)) (env_now env))"
    by simp
  from comprehensive_valid_amount [OF this]
  have "validateBetAmount (rq_amount (ck_body ck)) = []" by (simp add: ruleInput_def)
  from validateBetAmount_empty [OF this] obtain k where
    k: "rq_amount (ck_body ck) = Finite (real_of_int k)" "5 \<le> k" "k \<le> 5000" by blast
  with betAmountWei_whole [of k] show ?thesis by auto
qed

text \<open>What \<open>settle\<close> does, by the store calls that fail.\<close>

lemma find_poolsUpdated:
  "find (\<lambda>m. mk_marketId m = bet_marketId bet) (poolsUpdated market bet rows)
     = map_option (poolUpdate market (bet_choice bet) (bet_amount bet))
         (find (\<lambda>m. mk_marketId m = bet_marketId bet) rows)"
  by (induction rows) (simp_all add: poolsUpdated_def poolUpdate_def)

lemma newBet_simps [simp]:
  "bet_txHash (newBet env txHash marketId choice w walletAddress n) = txHash"
  "bet_marketId (newBet env txHash marketId choice w walletAddress n) = marketId"
  "bet_choice (newBet env txHash marketId choice w walletAddress n) = choice"
  "bet_amount (newBet env txHash marketId choice w walletAddress n) = w"
  "bet_id (newBet env txHash marketId choice w walletAddress n) = env_newId env"
  by (simp_all add: newBet_def Let_def)

lemma settle_stages:
  assumes w: "betAmountWei amount = Returned w" and row: "findMarket s marketId = Some row"
    and bet: "bet = newBet env txHash marketId choice w walletAddress n"
    and s3: "s3 = withPool market bet (withAudit bet (withBet bet s))"
  shows "settle env s market txHash marketId choice amount walletAddress n =
           (if env_fails env CreateBet \<or> txHashTaken env s txHash then (internalError, s)
            else if env_fails env CreateBetHistory then (internalError, withBet bet s)
            else if env_fails env UpdateMarket
            then (internalError, withAudit bet (withBet bet s))
            else if env_fails env GetUpdatedMarket then (successResponse (bet_id bet), s3)
            else if env_fails env CountMarketBets \<or> env_fails env CreatePoolSnapshot
            then (internalError, s3)
            else (successResponse (bet_id bet),
                  withSnapshot (snapshotOf s3 marketId (poolUpdate market choice w row)) s3))"
proof -
  have m: "bet_marketId bet = marketId" "bet_choice bet = choice" "bet_amount bet = w"
    by (simp_all add: bet)
  have f2: "findMarket (withAudit bet (withBet bet s)) marketId = Some row"
    using row by (simp add: findMarket_def withAudit_def withBet_def)
  have f3: "findMarket s3 marketId = Some (poolUpdate market choice w row)"
    using row find_poolsUpdated [of bet market "st_markets s"]
    by (simp add: findMarket_def s3 withPool_def withAudit_def withBet_def m)
  show ?thesis
    using f2 f3
    by (simp add: settle_def w Let_def bet [symmetric] getMarketById_def
        withBet_def [symmetric] withAudit_def [symmetric] withPool_def [symmetric]
        s3 [symmetric] withSnapshot_def)
qed

lemma POST_stages:
  assumes ck: "confirmChecks env s request = Inr ck"
  shows "\<exists>k. rq_amount (ck_body ck) = Finite (real_of_int k) \<and> 5 \<le> k \<and> k \<le> 5000
           \<and> findMarket s (rq_marketId (ck_body ck)) = Some (ck_market ck)
           \<and> (\<forall>bet s3.
                 bet = newBet env (rq_txHash (ck_body ck)) (rq_marketId (ck_body ck))
                         (ck_choice ck) (k * 1000000) (rq_walletAddress (ck_body ck))
                         (ck_userBetCount ck)
                 \<and> s3 = withPool (ck_market ck) bet (withAudit bet (withBet bet s))
                 \<longrightarrow> POST env s request =
           (if env_fails env CreateBet \<or> txHashTaken env s (rq_txHash (ck_body ck))
            then (internalError, s)
            else if env_fails env CreateBetHistory then (internalError, withBet bet s)
            else if env_fails env UpdateMarket
            then (internalError, withAudit bet (withBet bet s))
            else if env_fails env GetUpdatedMarket then (successResponse (bet_id bet), s3)
            else if env_fails env CountMarketBets \<or> env_fails env CreatePoolSnapshot
            then (internalError, s3)
            else (successResponse (bet_id bet),
                  withSnapshot
                    (snapshotOf s3 (rq_marketId (ck_body ck))
                       (poolUpdate (ck_market ck) (ck_choice ck) (k * 1000000) (ck_market ck)))
                    s3)))"
proof -
  from confirmChecks_amount [OF ck] obtain k where
    k: "rq_amount (ck_body ck) = Finite (real_of_int k)" "5 \<le> k" "k \<le> 5000"
    and w: "betAmountWei (rq_amount (ck_body ck)) = Returned (k * 1000000)" by blast
  from confirmChecks_Inr [OF ck]
  have "getMarketById (env_fails env) GetMarket s (rq_marketId (ck_body ck)) = Some (ck_market ck)"
    by simp
  then have row: "findMarket s (rq_marketId (ck_body ck)) = Some (ck_market ck)"
    by (simp add: getMarketById_def split: if_splits)
  show ?thesis
    using k row settle_stages [OF w row]
    by (auto simp add: POST_Inr [OF ck])
qed

lemma decode_examplePayload:
  "decodePlaceBetTransaction examplePayload = decode_success YES 5000000"
  by (simp add: decodePlaceBetTransaction_def examplePayload_def PLACE_BET_length
      BigInt_hex_zero_word BigInt_hex_min_word MIN_BET_WEI_def MAX_BET_WEI_def)

lemma examplePayload_nonempty: "examplePayload \<noteq> []"
  by (simp add: examplePayload_def PLACE_BET_def)

lemma onChainBet_example: "onChainBet exampleLedger ''0xa1'' YES 5000000"
proof -
  have oc: "validateTransactionOnChain exampleLedger ''0xa1'' =
              \<lparr>oc_isValid = True, oc_receipt = Some exampleReceipt, oc_blockNumber = Some 100,
               oc_status = Success, oc_error = None\<rparr>"
    by (simp add: validateTransactionOnChain_def exampleLedger_def exampleReceipt_def
        toContract_def)
  have d: "getTransactionDetails exampleLedger ''0xa1'' =
             Some \<lparr>td_data = examplePayload, td_gas = 100000, td_gasPrice = 1,
                   td_gasUsed = Some 50000, td_blockNumber = Some 100\<rparr>"
    by (simp add: getTransactionDetails_def exampleLedger_def exampleReceipt_def)
  have rv: "validateTransactionReceipt exampleLedger (Some exampleReceipt) 100000 = []"
    by (simp add: validateTransactionReceipt_def exampleLedger_def exampleReceipt_def
        toContract_def signed_divide_int_def)
  show ?thesis
    by (simp add: onChainBet_def oc d rv decode_examplePayload examplePayload_nonempty)
qed

lemma validateDecodedBet_example:
  "validateDecodedBet (decode_success YES 5000000) YES (Finite 5) = Returned []"
  by (simp add: validateDecodedBet_success USDT_DECIMALS_def binary64_numeral)

lemma usdt_zero: "ndiv (Number 0) (Finite (10 ^ USDT_DECIMALS)) = Finite 0"
  by (simp add: Number_def)

lemma usdt_five: "ndiv (Number 5000000) (Finite (10 ^ USDT_DECIMALS)) = Finite 5"
  by (simp add: Number_exact USDT_DECIMALS_def binary64_numeral)

lemma endTime_example: "ndiv (timeValue 99000000) (Finite 1000) = Finite 99000"
  by (simp add: binary64_numeral)

text \<open>The binary64 value of the literal \<open>0.01\<close>.\<close>

lemma binary64_cent: "binary64 (1 / 100) = Finite (5764607523034235 / 576460752303423488)"
  using binary64_normal [of "- 7" "1 / 100"]
  by (simp add: pow2_def round_half_even_def)

lemma validateBetAmount_five: "validateBetAmount (Finite 5) = []"
  by (simp add: validateBetAmount_def MIN_BET_def MAX_BET_def)

lemma validatePoolCap_first: "validatePoolCap (Finite 0) (Finite 5) (Finite 0) (Finite 0) = []"
  by (simp add: validatePoolCap_def bootstrap_ceiling binary64_numeral)

lemma validatePoolCap_second:
  "validatePoolCap (Finite 5) (Finite 5) (Finite 5) (Finite 0) = [PoolCapExceeded]"
  using binary64_half_integer [of 1]
  by (simp add: validatePoolCap_def POOL_CAP_PERCENT_def binary64_numeral)

lemma ruleChecks_example:
  assumes "env_now env = 1000000" and "\<not> env_fails env FindLastBet"
    and "\<not> env_fails env FindRecentBets"
  shows "ruleChecks env emptyStore exampleRequest activeMarket YES =
           Inr \<lparr>ck_body = exampleRequest, ck_market = activeMarket, ck_choice = YES,
                ck_userBetCount = 0\<rparr>"
proof -
  have inp: "ruleInput env emptyStore exampleRequest activeMarket YES =
               \<lparr>bi_walletAddress = exampleWallet, bi_choice = Some YES, bi_amount = Finite 5,
                bi_lastBetTimestamp = None, bi_currentBetCount = 0,
                bi_walletTotalBets = Finite 0,
                bi_recentBetTimestamps = [], bi_totalYesPool = Finite 0,
                bi_totalNoPool = Finite 0,
                bi_marketStatus = ''ACTIVE'', bi_marketEndTime = Finite 99000,
                bi_isFlagged = False\<rparr>"
    by (simp add: ruleInput_def exampleRequest_def emptyStore_def activeMarket_def
        lastBetTime_def userBets_def getUserBetCount_def getUserTotalBetAmount_def
        recentBetTimestamps_def isFlaggedWallet_def usdt_zero endTime_example
        del: timeValue_simp)
  have c: "vr_isValid (validateBetComprehensive (ruleInput env emptyStore exampleRequest activeMarket YES) 1000000)"
    unfolding inp vr_isValid_comprehensive vr_errors_comprehensive
    using isValidAddress_exampleWallet
    by (simp add: validateWalletAddress_def validateBetChoice_def
        validateBetAmount_five validateMarketActive_def validateWalletNotFlagged_def
        validateCooldown_def validateBetCount_def validatePoolCap_first validateBetVelocity_def
        MAX_BETS_PER_WALLET_def MAX_BETS_IN_1_HOUR_def binary64_numeral
        exampleWallet_def)
  have f: "vr_isValid (validateBetForContract (ruleInput env emptyStore exampleRequest activeMarket YES) 1000000)"
    unfolding inp
    by (simp add: validateBetForContract_def validateBetChoice_def
        validateBetAmount_five validateWalletNotFlagged_def
        validateCooldown_def validateBetCount_def validatePoolCap_first validateBetVelocity_def
        MAX_BETS_PER_WALLET_def MAX_BETS_IN_1_HOUR_def)
  have n: "bi_currentBetCount (ruleInput env emptyStore exampleRequest activeMarket YES) = 0"
    by (simp add: inp)
  show ?thesis
    using assms c f by (simp add: ruleChecks_def Let_def n)
qed

lemma claimMismatch_example:
  "\<not> claimMismatch (validateBetTransaction exampleLedger ''0xa1'' YES (Finite 5)) YES (Finite 5)"
  using vbt_onChainBet [OF onChainBet_example validateDecodedBet_example]
  by (simp add: claimMismatch_def usdt_five falsy_number_def binary64_cent)

lemma confirmChecks_example:
  assumes "env_ledger env = exampleLedger" and "env_now env = 1000000"
    and "env_isAddress env = isValidAddress" and "\<not> env_fails env GetMarket"
    and "\<not> env_fails env FindLastBet" and "\<not> env_fails env FindRecentBets"
  shows "confirmChecks env emptyStore (Some exampleRequest) =
           Inr \<lparr>ck_body = exampleRequest, ck_market = activeMarket, ck_choice = YES,
                ck_userBetCount = 0\<rparr>"
proof -
  have vr: "validateRequest isValidAddress exampleRequest = None"
    using isValidAddress_exampleWallet
    by (simp add: validateRequest_def exampleRequest_def exampleWallet_def)
  have mk: "getMarketById (env_fails env) GetMarket emptyStore ''m1'' = Some activeMarket"
    using assms(4) by (simp add: getMarketById_def findMarket_def emptyStore_def activeMarket_def)
  note v = vbt_onChainBet [OF onChainBet_example validateDecodedBet_example]
  note cm = claimMismatch_example
  have rq: "rq_txHash exampleRequest = ''0xa1''" "rq_marketId exampleRequest = ''m1''"
    "rq_choice exampleRequest = Some YES" "rq_amount exampleRequest = Finite 5"
    by (simp_all add: exampleRequest_def)
  have am: "mk_status activeMarket = ''ACTIVE''" "mk_endDate activeMarket = 99000000"
    by (simp_all add: activeMarket_def)
  show ?thesis
    by (simp add: confirmChecks_def assms(1,2,3) vr rq mk am v cm
        ruleChecks_example [OF assms(2) assms(5) assms(6)])
qed

lemma betAmountWei_five: "betAmountWei (Finite 5) = Returned 5000000"
  using betAmountWei_whole [of 5] by simp

lemma newBet_example:
  "env_newId env = ''bet1'' \<Longrightarrow> env_now env = 1000000
     \<Longrightarrow> newBet env ''0xa1'' ''m1'' YES 5000000 exampleWallet 0 = exampleBet"
  by (simp add: newBet_def exampleBet_def)

lemma POST_example:
  "POST exampleEnv emptyStore (Some exampleRequest) = (successResponse ''bet1'', settledStore)"
proof -
  have ck: "confirmChecks exampleEnv emptyStore (Some exampleRequest) =
           Inr \<lparr>ck_body = exampleRequest, ck_market = activeMarket, ck_choice = YES,
                ck_userBetCount = 0\<rparr>"
    by (rule confirmChecks_example) (simp_all add: exampleEnv_def)
  have nb: "newBet exampleEnv ''0xa1'' ''m1'' YES 5000000 exampleWallet 0 = exampleBet"
    by (rule newBet_example) (simp_all add: exampleEnv_def)
  show ?thesis
    unfolding POST_Inr [OF ck]
    apply (simp add: settle_def exampleRequest_def betAmountWei_five nb txHashTaken_def Let_def)
    apply (simp add: exampleEnv_def emptyStore_def findMarket_def activeMarket_def
        getMarketById_def poolsUpdated_def poolUpdate_def exampleBet_def snapshotOf_def
        settledStore_def successResponse_def)
    done
qed


lemma POST_example_again:
  "POST exampleEnv settledStore (Some exampleRequest)
     = (errorResponse (RuleErrors (Some (CooldownNotMet 300, 1))) (Some ''COOLDOWN_NOT_MET'') 400,
        settledStore)"
proof -
  let ?market = "activeMarket\<lparr>mk_yesPool := 5000000\<rparr>"
  have inp: "ruleInput exampleEnv settledStore exampleRequest ?market YES =
               \<lparr>bi_walletAddress = exampleWallet, bi_choice = Some YES, bi_amount = Finite 5,
                bi_lastBetTimestamp = Some 1000000, bi_currentBetCount = 1,
                bi_walletTotalBets = Finite 5, bi_recentBetTimestamps = [1000000],
                bi_totalYesPool = Finite 5, bi_totalNoPool = Finite 0,
                bi_marketStatus = ''ACTIVE'', bi_marketEndTime = Finite 99000,
                bi_isFlagged = False\<rparr>"
    by (simp add: ruleInput_def exampleRequest_def settledStore_def activeMarket_def
        lastBetTime_def userBets_def getUserBetCount_def getUserTotalBetAmount_def
        recentBetTimestamps_def isFlaggedWallet_def exampleEnv_def exampleBet_def
        orUndefined_def usdt_zero usdt_five endTime_example del: timeValue_simp)
  have c: "vr_errors (validateBetComprehensive
             (ruleInput exampleEnv settledStore exampleRequest ?market YES) 1000000)
           = [CooldownNotMet 300, PoolCapExceeded]"
    unfolding inp vr_errors_comprehensive using isValidAddress_exampleWallet
    by (simp add: validateWalletAddress_def validateBetChoice_def
        validateBetAmount_five validateMarketActive_def validateWalletNotFlagged_def
        validateCooldown_def validateBetCount_def validatePoolCap_second validateBetVelocity_def
        MAX_BETS_PER_WALLET_def MAX_BETS_IN_1_HOUR_def binary64_numeral
        COOLDOWN_SECONDS_def exampleWallet_def)
  have v: "\<not> vr_isValid (validateBetComprehensive
             (ruleInput exampleEnv settledStore exampleRequest ?market YES) 1000000)"
    using c by (simp add: vr_isValid_comprehensive)
  have now: "env_now exampleEnv = 1000000" "\<not> env_fails exampleEnv FindLastBet"
    "\<not> env_fails exampleEnv FindRecentBets"
    by (simp_all add: exampleEnv_def)
  have rc: "ruleChecks exampleEnv settledStore exampleRequest ?market YES =
              Inl (errorResponse (RuleErrors (Some (CooldownNotMet 300, 1)))
                     (Some ''COOLDOWN_NOT_MET'') 400)"
    using v by (simp add: ruleChecks_def Let_def now c formatValidationErrors_def)
  have vr: "validateRequest isValidAddress exampleRequest = None"
    using isValidAddress_exampleWallet
    by (simp add: validateRequest_def exampleRequest_def exampleWallet_def)
  have mk: "getMarketById (env_fails exampleEnv) GetMarket settledStore ''m1'' = Some ?market"
    by (simp add: getMarketById_def findMarket_def settledStore_def activeMarket_def
        exampleEnv_def)
  note vt = vbt_onChainBet [OF onChainBet_example validateDecodedBet_example]
  note cm = claimMismatch_example
  have rq: "rq_txHash exampleRequest = ''0xa1''" "rq_marketId exampleRequest = ''m1''"
    "rq_choice exampleRequest = Some YES" "rq_amount exampleRequest = Finite 5"
    by (simp_all add: exampleRequest_def)
  have env: "env_ledger exampleEnv = exampleLedger" "env_isAddress exampleEnv = isValidAddress"
    by (simp_all add: exampleEnv_def)
  have am: "mk_status ?market = ''ACTIVE''" "mk_endDate ?market = 99000000"
    by (simp_all add: activeMarket_def)
  have "confirmChecks exampleEnv settledStore (Some exampleRequest) =
          Inl (errorResponse (RuleErrors (Some (CooldownNotMet 300, 1)))
                 (Some ''COOLDOWN_NOT_MET'') 400)"
    by (simp add: confirmChecks_def env now vr rq mk am vt cm rc)
  then show ?thesis by (rule POST_Inl)
qed

lemma txHashTaken_settled: "txHashTaken exampleEnv settledStore ''0xa1''"
  by (simp add: txHashTaken_def exampleEnv_def settledStore_def exampleBet_def)

text \<open>
  Claim C1, as stated, lets the second confirmation of a transaction succeed with the
  first one's bet. In the example the first call settles the bet; the second call with
  the same request is answered with status 400 and the code \<open>COOLDOWN_NOT_MET\<close>.
\<close>

theorem second_confirmation_fails_counterexample:
  "POST exampleEnv emptyStore (Some exampleRequest) = (successResponse ''bet1'', settledStore)
   \<and> POST exampleEnv settledStore (Some exampleRequest)
       = (errorResponse (RuleErrors (Some (CooldownNotMet 300, 1))) (Some ''COOLDOWN_NOT_MET'')
            400, settledStore)
   \<and> \<not> rs_success (fst (POST exampleEnv settledStore (Some exampleRequest)))"
  using POST_example POST_example_again by simp

lemma POST_success_row:
  assumes "POST env s (Some body) = (r, s1)" and "rs_success r"
  shows "\<not> txHashTaken env s (rq_txHash body)
         \<and> (\<exists>bet. bet_txHash bet = rq_txHash body \<and> st_bets s1 = st_bets s @ [bet])"
proof (cases "confirmChecks env s (Some body)")
  case (Inl e)
  with assms confirmChecks_Inl [OF Inl] show ?thesis by (simp add: POST_def)
next
  case (Inr ck)
  from confirmChecks_Inr [OF Inr] have b: "ck_body ck = body" by simp
  from POST_stages [OF Inr] obtain k where
    st: "\<And>bet s3.
           bet = newBet env (rq_txHash body) (rq_marketId body) (ck_choice ck) (k * 1000000)
                   (rq_walletAddress body) (ck_userBetCount ck)
           \<Longrightarrow> s3 = withPool (ck_market ck) bet (withAudit bet (withBet bet s))
           \<Longrightarrow> POST env s (Some body) =
           (if env_fails env CreateBet \<or> txHashTaken env s (rq_txHash body)
            then (internalError, s)
            else if env_fails env CreateBetHistory then (internalError, withBet bet s)
            else if env_fails env UpdateMarket
            then (internalError, withAudit bet (withBet bet s))
            else if env_fails env GetUpdatedMarket then (successResponse (bet_id bet), s3)
            else if env_fails env CountMarketBets \<or> env_fails env CreatePoolSnapshot
            then (internalError, s3)
            else (successResponse (bet_id bet),
                  withSnapshot
                    (snapshotOf s3 (rq_marketId body)
                       (poolUpdate (ck_market ck) (ck_choice ck) (k * 1000000) (ck_market ck)))
                    s3))"
    unfolding b by blast
  define bet where "bet = newBet env (rq_txHash body) (rq_marketId body) (ck_choice ck)
                            (k * 1000000) (rq_walletAddress body) (ck_userBetCount ck)"
  from st [OF bet_def refl] assms
  have "\<not> txHashTaken env s (rq_txHash body) \<and> st_bets s1 = st_bets s @ [bet]"
    by (auto simp add: withBet_def withAudit_def withPool_def withSnapshot_def
        split: if_splits)
  moreover have "bet_txHash bet = rq_txHash body" by (simp add: bet_def)
  ultimately show ?thesis by blast
qed

text \<open>
  Claim C1, amended. Let the store enforce uniqueness of \<open>Bet.txHash\<close>. After a
  successful confirmation of a transaction reference, the store holds exactly one Bet
  row with that reference, and every further confirmation call with the same reference
  is answered with an error and leaves the store unchanged: it adds no second row, and
  it does not return the existing bet as a success.
\<close>

theorem repeated_confirmation_rejected:
  assumes "env_txHashUnique env" and "env_txHashUnique env'"
    and "POST env s (Some body) = (r, s1)" and "rs_success r"
    and "rq_txHash body' = rq_txHash body"
  shows "\<not> rs_success (fst (POST env' s1 (Some body')))
         \<and> snd (POST env' s1 (Some body')) = s1
         \<and> length (filter (\<lambda>b. bet_txHash b = rq_txHash body) (st_bets s1)) = 1"
proof -
  from POST_success_row [OF assms(3,4)] obtain bet where
    free: "\<not> txHashTaken env s (rq_txHash body)"
    and bet: "bet_txHash bet = rq_txHash body" and bets: "st_bets s1 = st_bets s @ [bet]"
    by blast
  from free assms(1) have none: "filter (\<lambda>b. bet_txHash b = rq_txHash body) (st_bets s) = []"
    by (simp add: txHashTaken_def list_ex_iff filter_empty_conv)
  have one: "length (filter (\<lambda>b. bet_txHash b = rq_txHash body) (st_bets s1)) = 1"
    by (simp add: bets none bet)
  have "txHashTaken env' s1 (rq_txHash body')"
    using assms(2,5) bet by (auto simp add: txHashTaken_def bets list_ex_iff)
  from POST_taken [OF this] one show ?thesis by simp
qed

theorem repeated_confirmation_rejected_witness:
  "env_txHashUnique exampleEnv
   \<and> POST exampleEnv emptyStore (Some exampleRequest) = (successResponse ''bet1'', settledStore)
   \<and> rs_success (successResponse ''bet1'')
   \<and> \<not> rs_success (fst (POST exampleEnv settledStore (Some exampleRequest)))
   \<and> snd (POST exampleEnv settledStore (Some exampleRequest)) = settledStore
   \<and> length (filter (\<lambda>b. bet_txHash b = rq_txHash exampleRequest) (st_bets settledStore)) = 1"
proof -
  have u: "env_txHashUnique exampleEnv" by (simp add: exampleEnv_def)
  have ok: "rs_success (successResponse ''bet1'')" by simp
  from repeated_confirmation_rejected [OF u u POST_example ok refl] u POST_example ok
  show ?thesis by simp
qed





lemma BigInt_hex_fractional_word:
  "BigInt_hex ''00000000000000000000000000000000000000000000000000000000007a1201'' = Some 8000001"
  by (simp add: BigInt_hex_def trimEnd_def isStrWhiteSpace_def hexDigit_def)

lemma onChainBet_fractional: "onChainBet fractionalLedger ''0xa1'' YES 8000001"
proof -
  have oc: "validateTransactionOnChain fractionalLedger ''0xa1'' =
              \<lparr>oc_isValid = True, oc_receipt = Some exampleReceipt, oc_blockNumber = Some 100,
               oc_status = Success, oc_error = None\<rparr>"
    by (simp add: validateTransactionOnChain_def fractionalLedger_def exampleLedger_def
        exampleReceipt_def toContract_def)
  have d: "getTransactionDetails fractionalLedger ''0xa1'' =
             Some \<lparr>td_data = fractionalPayload, td_gas = 100000, td_gasPrice = 1,
                   td_gasUsed = Some 50000, td_blockNumber = Some 100\<rparr>"
    by (simp add: getTransactionDetails_def fractionalLedger_def exampleLedger_def
        exampleReceipt_def)
  have rv: "validateTransactionReceipt fractionalLedger (Some exampleReceipt) 100000 = []"
    by (simp add: validateTransactionReceipt_def fractionalLedger_def exampleLedger_def
        exampleReceipt_def toContract_def signed_divide_int_def)
  have dec: "decodePlaceBetTransaction fractionalPayload = decode_success YES 8000001"
    by (simp add: decodePlaceBetTransaction_def fractionalPayload_def PLACE_BET_length
        BigInt_hex_zero_word BigInt_hex_fractional_word MIN_BET_WEI_def MAX_BET_WEI_def)
  have ne: "fractionalPayload \<noteq> []"
    by (simp add: fractionalPayload_def PLACE_BET_def)
  show ?thesis
    by (simp add: onChainBet_def oc d rv dec ne)
qed

lemma formatUSDT_8000001: "formatUSDT 8000001 = 4503600190320449 / 562949953421312"
  by code_simp

lemma amount_fractional:
  "rq_amount fractionalRequest = Finite (4503600190320449 / 562949953421312)"
  using binary64_normal [of 3 "8000001 / 1000000"]
  by (simp add: fractionalRequest_def pow2_def round_half_even_def)

lemma product_fractional:
  "nmul (Finite (4503600190320449 / 562949953421312)) (Finite (10 ^ USDT_DECIMALS))
     = Finite (8589935665741823 / 1073741824)"
  using binary64_normal [of 22 "4503600190320449 / 562949953421312 * 1000000"]
  by (simp add: pow2_def round_half_even_def USDT_DECIMALS_def)

lemma validateDecodedBet_fractional:
  "validateDecodedBet (decode_success YES 8000001) YES
     (Finite (4503600190320449 / 562949953421312)) = Thrown"
  unfolding validateDecodedBet_success product_fractional
  by (simp add: isInteger_def)

lemma betAmountWei_fractional:
  "betAmountWei (Finite (4503600190320449 / 562949953421312)) = Returned 8000000"
  unfolding betAmountWei_def product_fractional
  by (simp add: isInteger_def)

lemma POST_fractional:
  "POST (exampleEnv\<lparr>env_ledger := fractionalLedger\<rparr>) emptyStore (Some fractionalRequest)
     = (errorResponse (TransactionErrors (Some (UnexpectedError, 0))) (Some ''TX_FAILED'') 400,
        emptyStore)"
proof -
  let ?env = "exampleEnv\<lparr>env_ledger := fractionalLedger\<rparr>"
  have rq: "rq_txHash fractionalRequest = ''0xa1''" "rq_marketId fractionalRequest = ''m1''"
    "rq_choice fractionalRequest = Some YES"
    "rq_walletAddress fractionalRequest = exampleWallet"
    by (simp_all add: fractionalRequest_def exampleRequest_def)
  have vr: "validateRequest isValidAddress fractionalRequest = None"
    using isValidAddress_exampleWallet
    by (simp add: validateRequest_def rq amount_fractional exampleWallet_def)
  have mk: "getMarketById (env_fails exampleEnv) GetMarket emptyStore ''m1'' = Some activeMarket"
    by (simp add: getMarketById_def findMarket_def emptyStore_def activeMarket_def
        exampleEnv_def)
  have am: "mk_status activeMarket = ''ACTIVE''" "mk_endDate activeMarket = 99000000"
    by (simp_all add: activeMarket_def)
  have env: "env_isAddress exampleEnv = isValidAddress" "env_now exampleEnv = 1000000"
    by (simp_all add: exampleEnv_def)
  note v = vbt_onChainBet_thrown [OF onChainBet_fractional validateDecodedBet_fractional]
  have "confirmChecks ?env emptyStore (Some fractionalRequest) =
          Inl (errorResponse (TransactionErrors (Some (UnexpectedError, 0)))
                 (Some ''TX_FAILED'') 400)"
    by (simp add: confirmChecks_def env vr rq mk am v amount_fractional
        formatValidationErrors_def)
  then show ?thesis by (rule POST_Inl)
qed

text \<open>
  Claim C5. The transaction of the example carries 8000001 units on YES, that is
  8.000001 USDT, and the request claims YES with the amount \<open>8.000001\<close>, the display
  value of 8000001 units: claim and transaction differ by less than one unit. The
  verifier converts the claim with \<open>BigInt(userAmount * 10 ** 6)\<close>. The binary64
  product is \<open>8000000.999999999\<close>, which is not an integer, so \<open>BigInt\<close> throws; the
  verifier reports an unexpected error and the handler answers \<open>TX_FAILED\<close>, where
  the claim and the comment of the comparison (one unit of tolerance for rounding)
  accept. The handler's own conversion, \<open>BigInt(Math.floor(amount * 10 ** 6))\<close>, gives
  8000000 on the same amount, one unit from the amount on the ledger.
\<close>

theorem fractional_claim_refused:
  "onChainBet fractionalLedger ''0xa1'' YES 8000001
   \<and> rq_choice fractionalRequest = Some YES
   \<and> rq_amount fractionalRequest = Finite (formatUSDT 8000001)
   \<and> \<bar>real_of_int 8000001 - formatUSDT 8000001 * 10 ^ USDT_DECIMALS\<bar> < 1
   \<and> nmul (rq_amount fractionalRequest) (Finite (10 ^ USDT_DECIMALS))
       = Finite (8589935665741823 / 1073741824)
   \<and> validateDecodedBet (decode_success YES 8000001) YES (rq_amount fractionalRequest) = Thrown
   \<and> betAmountWei (rq_amount fractionalRequest) = Returned 8000000
   \<and> POST (exampleEnv\<lparr>env_ledger := fractionalLedger\<rparr>) emptyStore (Some fractionalRequest)
       = (errorResponse (TransactionErrors (Some (UnexpectedError, 0))) (Some ''TX_FAILED'') 400,
          emptyStore)"
proof -
  have ch: "rq_choice fractionalRequest = Some YES"
    by (simp add: fractionalRequest_def exampleRequest_def)
  have am: "rq_amount fractionalRequest = Finite (formatUSDT 8000001)"
    by (simp only: amount_fractional formatUSDT_8000001)
  have near: "\<bar>real_of_int 8000001 - formatUSDT 8000001 * 10 ^ USDT_DECIMALS\<bar> < 1"
    by (simp add: formatUSDT_8000001 USDT_DECIMALS_def)
  have pr: "nmul (rq_amount fractionalRequest) (Finite (10 ^ USDT_DECIMALS))
              = Finite (8589935665741823 / 1073741824)"
    by (simp only: amount_fractional product_fractional)
  have vd: "validateDecodedBet (decode_success YES 8000001) YES (rq_amount fractionalRequest)
              = Thrown"
    by (simp only: amount_fractional validateDecodedBet_fractional)
  have bw: "betAmountWei (rq_amount fractionalRequest) = Returned 8000000"
    by (simp only: amount_fractional betAmountWei_fractional)
  from onChainBet_fractional ch am near pr vd bw POST_fractional show ?thesis by blast
qed

theorem fractional_claim_refused_witness:
  "\<not> rs_success (fst (POST (exampleEnv\<lparr>env_ledger := fractionalLedger\<rparr>) emptyStore
                         (Some fractionalRequest)))"
  using fractional_claim_refused by simp

lemma POST_undecodable:
  assumes "getTransaction (env_ledger env) (rq_txHash body) = Returned t"
    and "\<not> dec_isValid (decodePlaceBetTransaction (tx_input t))"
  shows "\<not> rs_success (fst (POST env s (Some body))) \<and> snd (POST env s (Some body)) = s"
proof (rule POST_rejected)
  fix ck
  show "confirmChecks env s (Some body) \<noteq> Inr ck"
  proof
    assume ck: "confirmChecks env s (Some body) = Inr ck"
    from confirmChecks_Inr [OF ck] have b: "ck_body ck = body"
      and v: "vt_isValid (validateBetTransaction (env_ledger env) (rq_txHash (ck_body ck))
                (ck_choice ck) (rq_amount (ck_body ck)))"
      by simp_all
    from vbt_valid_onChainBet [OF v] obtain c a where
      "onChainBet (env_ledger env) (rq_txHash body) c a" unfolding b by blast
    then obtain d where d: "getTransactionDetails (env_ledger env) (rq_txHash body) = Some d"
      and dec: "decodePlaceBetTransaction (td_data d) = decode_success c a"
      by (rule onChainBetE)
    from details_data [OF d] assms(1) have "td_data d = tx_input t" by auto
    with dec assms(2) show False by simp
  qed
qed

text \<open>
  Claim C10. A payload with the \<open>placeBet\<close> selector and a parameter section of 128
  characters is rejected by the decoder when its choice word denotes a value other than
  0 and 1, and when its amount word denotes an amount below \<open>MIN_BET_WEI\<close> or above
  \<open>MAX_BET_WEI\<close>. A confirmation request whose transaction carries such a payload
  fails and leaves the store unchanged, whatever the store, the request and the rule
  engine's inputs are.
\<close>

theorem out_of_limits_payload_never_settles:
  assumes "take 10 d = PLACE_BET" and "length (drop 10 d) = 128"
    and "BigInt_hex (take 64 (drop 10 d)) = Some choiceBigInt"
    and "(choiceBigInt \<noteq> 0 \<and> choiceBigInt \<noteq> 1)
         \<or> (\<exists>amount. BigInt_hex (take 64 (drop 64 (drop 10 d))) = Some amount
                \<and> (amount < MIN_BET_WEI \<or> amount > MAX_BET_WEI))"
  shows "\<not> dec_isValid (decodePlaceBetTransaction d)
         \<and> (getTransaction (env_ledger env) (rq_txHash body) = Returned t \<and> tx_input t = d
              \<longrightarrow> \<not> rs_success (fst (POST env s (Some body)))
                  \<and> snd (POST env s (Some body)) = s)"
proof -
  have inv: "\<not> dec_isValid (decodePlaceBetTransaction d)"
    using assms by (auto simp add: decodePlaceBetTransaction_def Let_def)
  with POST_undecodable [of env body t s] show ?thesis by blast
qed

lemma BigInt_hex_low_word:
  "BigInt_hex ''00000000000000000000000000000000000000000000000000000000004c4b3f'' = Some 4999999"
  by (simp add: BigInt_hex_def trimEnd_def isStrWhiteSpace_def hexDigit_def)

theorem out_of_limits_payload_never_settles_witness:
  "take 10 lowPayload = PLACE_BET \<and> length (drop 10 lowPayload) = 128
   \<and> BigInt_hex (take 64 (drop 10 lowPayload)) = Some 0
   \<and> BigInt_hex (take 64 (drop 64 (drop 10 lowPayload))) = Some 4999999
   \<and> 4999999 < MIN_BET_WEI
   \<and> \<not> dec_isValid (decodePlaceBetTransaction lowPayload)
   \<and> \<not> rs_success (fst (POST (exampleEnv\<lparr>env_ledger := lowLedger\<rparr>) emptyStore
                          (Some exampleRequest)))
   \<and> snd (POST (exampleEnv\<lparr>env_ledger := lowLedger\<rparr>) emptyStore (Some exampleRequest))
       = emptyStore"
proof -
  have sel: "take 10 lowPayload = PLACE_BET"
    by (simp add: lowPayload_def PLACE_BET_length)
  have len: "length (drop 10 lowPayload) = 128"
    by (simp add: lowPayload_def PLACE_BET_length)
  have cw: "BigInt_hex (take 64 (drop 10 lowPayload)) = Some 0"
    by (simp add: lowPayload_def PLACE_BET_length BigInt_hex_zero_word)
  have aw: "BigInt_hex (take 64 (drop 64 (drop 10 lowPayload))) = Some 4999999"
    by (simp add: lowPayload_def PLACE_BET_length BigInt_hex_low_word)
  have low: "4999999 < MIN_BET_WEI" by (simp add: MIN_BET_WEI_def)
  have bad: "(0 \<noteq> (0::int) \<and> 0 \<noteq> (1::int))
         \<or> (\<exists>amount. BigInt_hex (take 64 (drop 64 (drop 10 lowPayload))) = Some amount
                \<and> (amount < MIN_BET_WEI \<or> amount > MAX_BET_WEI))"
    using aw low by simp
  have tx: "getTransaction (env_ledger (exampleEnv\<lparr>env_ledger := lowLedger\<rparr>))
              (rq_txHash exampleRequest)
              = Returned \<lparr>tx_input = lowPayload, tx_gas = 100000, tx_gasPrice = 1\<rparr>"
    by (simp add: lowLedger_def)
  from out_of_limits_payload_never_settles [OF sel len cw bad,
      of "exampleEnv\<lparr>env_ledger := lowLedger\<rparr>" exampleRequest
         "\<lparr>tx_input = lowPayload, tx_gas = 100000, tx_gasPrice = 1\<rparr>" emptyStore]
    tx sel len cw aw low
  show ?thesis by simp
qed

end
